theory Spec2Isabelle
  imports Main "HOL-Library.Signed_Division"
begin

section \<open>The backup controller of pkg/controller/backup\_controller.go\<close>

text \<open>
  The controller is embedded with explicit state passing. Its collaborators (lister,
  cluster client, clock, plugin manager, backup store, Backupper) and the library calls it
  makes (key splitting, JSON marshalling, temporary files) are fields of the record
  \<open>backupController\<close>: each is a function giving the outcome of the call, so that a
  theorem quantified over the record holds for every behaviour of the collaborators.
  Every call that has an effect outside the function is appended to a trace of events.
\<close>

subsection \<open>Data\<close>

text \<open>Go's \<open>error\<close> values: a plain error, \<open>errors.Wrap\<close> (cause and message) and the
  aggregate built by \<open>kerrors.NewAggregate\<close>. A \<open>nil\<close> error is \<open>None\<close> of
  \<open>error option\<close>.\<close>

datatype error = Error string | Wrap error string | Aggregate "error list"

fun joinMsgs :: "string list \<Rightarrow> string" where
  "joinMsgs [] = []"
| "joinMsgs [m] = m"
| "joinMsgs (m # ms) = m @ '', '' @ joinMsgs ms"

text \<open>\<open>err.Error()\<close>, which \<open>%v\<close> prints.\<close>

fun Error_msg :: "error \<Rightarrow> string" where
  "Error_msg (Error m) = m"
| "Error_msg (Wrap e m) = m @ '': '' @ Error_msg e"
| "Error_msg (Aggregate es) =
     (case es of [] \<Rightarrow> [] | [e] \<Rightarrow> Error_msg e
      | _ \<Rightarrow> ''['' @ joinMsgs (map Error_msg es) @ '']'')"

text \<open>\<open>kerrors.NewAggregate\<close>: \<open>nil\<close> for an empty list.\<close>

definition NewAggregate :: "error list \<Rightarrow> error option" where
  "NewAggregate errlist = (if length errlist = 0 then None else Some (Aggregate errlist))"

text \<open>Instants and durations in nanoseconds (\<open>time.Time\<close>, \<open>time.Duration\<close>), as
  unbounded integers; the zero \<open>time.Time\<close> is 0. \<open>Time.Add\<close> is addition and
  \<open>Time.Sub\<close> subtraction: the saturation of the library at the ends of its ranges is
  left out.\<close>

type_synonym time = int
type_synonym bytes = string
type_synonym os_File = string
type_synonym actions = "string list"
type_synonym BackupStore = string

text \<open>\<open>api.Backup\<close>, with the fields of ObjectMeta, Spec and Status the controller reads or
  writes. A \<open>nil\<close> label map reads as the empty map, so both are \<open>Map.empty\<close>. The phase is
  a string, as in Go.\<close>

record Backup =
  Namespace :: string
  Name :: string
  Labels :: "string \<rightharpoonup> string"
  Spec_TTL :: int
  Spec_StorageLocation :: string
  Spec_IncludedResources :: "string list"
  Spec_ExcludedResources :: "string list"
  Spec_IncludedNamespaces :: "string list"
  Spec_ExcludedNamespaces :: "string list"
  Spec_SnapshotVolumes :: "bool option"
  Status_Phase :: string
  Status_Version :: int
  Status_ValidationErrors :: "string list"
  Status_Expiration :: time
  Status_StartTimestamp :: time
  Status_CompletionTimestamp :: time

record BackupStorageLocation =
  Location_Namespace :: string
  Location_Name :: string
  Location_Provider :: string

text \<open>Modelled from the spec: the phase constants of the api package, which is not
  among the sources; the glossary names the phases New, InProgress, FailedValidation,
  Completed and Failed.\<close>

definition BackupPhaseNew :: string where "BackupPhaseNew = ''New''"
definition BackupPhaseFailedValidation :: string where
  "BackupPhaseFailedValidation = ''FailedValidation''"
definition BackupPhaseInProgress :: string where "BackupPhaseInProgress = ''InProgress''"
definition BackupPhaseCompleted :: string where "BackupPhaseCompleted = ''Completed''"
definition BackupPhaseFailed :: string where "BackupPhaseFailed = ''Failed''"

definition backupVersion :: int where "backupVersion = 1"

text \<open>\<open>backup.GetLabels()[key]\<close>: the empty string for a missing key.\<close>

definition getLabel :: "Backup \<Rightarrow> string \<Rightarrow> string" where
  "getLabel b k = (case Labels b k of None \<Rightarrow> [] | Some v \<Rightarrow> v)"

subsection \<open>Effects\<close>

datatype level = Debug | Info

text \<open>One event per call with an outside effect, in the order of the calls. The two
  loggers (the controller's and the one of the backup, which also writes the log file) are
  not told apart. \<open>ClientPatch original updated\<close> is the request
  \<open>client.Backups(original.Namespace).Patch(original.Name, MergePatchType, patchBytes)\<close>,
  recorded with the two objects the merge patch was computed from.\<close>

datatype event =
    Log level string
  | LogError string error
  | ClientPatch Backup Backup
  | TrackerAdd string string
  | TrackerDelete string string
  | RegisterBackupAttempt string
  | RegisterBackupFailed string
  | RegisterBackupSuccess string
  | SetBackupTarballSizeBytesGauge string int
  | RegisterBackupDuration string int
  | TempFile os_File
  | FileClose os_File
  | OsRemove os_File
  | NewPluginManager
  | CleanupClients
  | NewBackupStore "BackupStorageLocation option"
  | BackupperBackup Backup os_File actions
  | EncodeTo Backup
  | FileStat os_File
  | GzipClose os_File
  | PutBackup BackupStore string "bytes option" "os_File option" os_File

record state =
  trace :: "event list"
  ticks :: nat

definition emit :: "event \<Rightarrow> state \<Rightarrow> state" where
  "emit e s = s\<lparr>trace := trace s @ [e]\<rparr>"

text \<open>The struct \<open>backupController\<close>. A collaborator behind an interface is the function
  that gives the result of its call; \<open>clock_Now n\<close> is what the clock returns at its
  \<open>n\<close>-th reading; \<open>ioutil_TempFile n\<close> is the result of the \<open>n\<close>-th temporary file
  of a run. \<open>StorageLocationLabel\<close> is the label key \<open>api.StorageLocationLabel\<close>, a
  constant of the api package.\<close>

record backupController =
  SplitMetaNamespaceKey :: "string \<Rightarrow> error + (string \<times> string)"
  lister_Get :: "string \<Rightarrow> string \<Rightarrow> error + Backup"
  pvProviderExists :: bool
  defaultBackupLocation :: string
  StorageLocationLabel :: string
  backupLocationLister_Get :: "string \<Rightarrow> string \<Rightarrow> error + BackupStorageLocation"
  clock_Now :: "nat \<Rightarrow> time"
  json_Marshal :: "Backup \<Rightarrow> error + bytes"
  CreateMergePatch :: "bytes \<Rightarrow> bytes \<Rightarrow> error + bytes"
  client_Patch :: "string \<Rightarrow> string \<Rightarrow> bytes \<Rightarrow> error + Backup"
  ioutil_TempFile :: "nat \<Rightarrow> error + os_File"
  file_Close :: "os_File \<Rightarrow> error option"
  os_Remove :: "os_File \<Rightarrow> error option"
  GetBackupItemActions :: "error + actions"
  newBackupStore :: "BackupStorageLocation option \<Rightarrow> error + BackupStore"
  backupper_Backup :: "Backup \<Rightarrow> os_File \<Rightarrow> actions \<Rightarrow> Backup \<times> error option"
  encode_EncodeTo :: "Backup \<Rightarrow> error + bytes"
  file_Stat :: "os_File \<Rightarrow> error + int"
  gzip_Close :: "os_File \<Rightarrow> error option"
  PutBackup_result :: "BackupStore \<Rightarrow> string \<Rightarrow> bytes option \<Rightarrow> os_File option \<Rightarrow> os_File \<Rightarrow> error option"

text \<open>\<open>c.clock.Now()\<close>.\<close>

definition clockNow :: "backupController \<Rightarrow> state \<Rightarrow> time \<times> state" where
  "clockNow c s = (clock_Now c (ticks s), s\<lparr>ticks := Suc (ticks s)\<rparr>)"

subsection \<open>Validation\<close>

definition wildcardWithExplicit :: "string list \<Rightarrow> bool" where
  "wildcardWithExplicit xs = (''*'' \<in> set xs \<and> (\<exists>x\<in>set xs. x \<noteq> ''*''))"

text \<open>Modelled from the spec: \<open>collections.ValidateIncludesExcludes\<close> belongs to the
  package pkg/util/collections, which is not among the sources. The spec: the lists are
  contradictory when the same name appears in both, or when "*" co-occurs with explicit
  names; an included "*" beside explicit exclusions is accepted, and duplicates are no
  contradiction. One error per finding.\<close>

definition ValidateIncludesExcludes :: "string list \<Rightarrow> string list \<Rightarrow> error list" where
  "ValidateIncludesExcludes includesList excludesList =
     (if wildcardWithExplicit includesList
      then [Error ''includes list must either contain * only, or a list of items'']
      else []) @
     (if wildcardWithExplicit excludesList
      then [Error ''excludes list must either contain * only, or a list of items'']
      else []) @
     map (\<lambda>itm. Error (''excludes list cannot contain an item in the includes list: '' @ itm))
       (filter (\<lambda>itm. itm \<in> set includesList) (remdups excludesList))"

text \<open>\<open>getLocationAndValidate\<close> mutates \<open>itm\<close> through its pointer; the model returns the
  mutated object as third component. On a failed lookup the location is \<open>nil\<close>.\<close>

definition getLocationAndValidate ::
  "backupController \<Rightarrow> Backup \<Rightarrow> string \<Rightarrow> BackupStorageLocation option \<times> string list \<times> Backup" where
  "getLocationAndValidate c itm0 defaultLocation =
     (let validationErrors = [];
          validationErrors = validationErrors @
            map (\<lambda>err. ''Invalid included/excluded resource lists: '' @ Error_msg err)
              (ValidateIncludesExcludes (Spec_IncludedResources itm0) (Spec_ExcludedResources itm0));
          validationErrors = validationErrors @
            map (\<lambda>err. ''Invalid included/excluded namespace lists: '' @ Error_msg err)
              (ValidateIncludesExcludes (Spec_IncludedNamespaces itm0) (Spec_ExcludedNamespaces itm0));
          validationErrors =
            (if \<not> pvProviderExists c \<and> Spec_SnapshotVolumes itm0 = Some True
             then validationErrors @ [''Server is not configured for PV snapshots'']
             else validationErrors);
          itm = (if Spec_StorageLocation itm0 = []
                 then itm0\<lparr>Spec_StorageLocation := defaultLocation\<rparr> else itm0);
          itm = itm\<lparr>Labels := (Labels itm)(StorageLocationLabel c \<mapsto> Spec_StorageLocation itm)\<rparr>
      in case backupLocationLister_Get c (Namespace itm) (Spec_StorageLocation itm) of
           Inl err \<Rightarrow>
             (None,
              validationErrors @ [''Error getting backup storage location: '' @ Error_msg err],
              itm)
         | Inr backupLocation \<Rightarrow> (Some backupLocation, validationErrors, itm))"

subsection \<open>The status patch\<close>

definition patchBackup ::
  "backupController \<Rightarrow> Backup \<Rightarrow> Backup \<Rightarrow> state \<Rightarrow> (error + Backup) \<times> state" where
  "patchBackup c original updated s =
     (case json_Marshal c original of
        Inl err \<Rightarrow> (Inl (Wrap err ''error marshalling original backup''), s)
      | Inr origBytes \<Rightarrow>
     (case json_Marshal c updated of
        Inl err \<Rightarrow> (Inl (Wrap err ''error marshalling updated backup''), s)
      | Inr updatedBytes \<Rightarrow>
     (case CreateMergePatch c origBytes updatedBytes of
        Inl err \<Rightarrow> (Inl (Wrap err ''error creating json merge patch for backup''), s)
      | Inr patchBytes \<Rightarrow>
     (case client_Patch c (Namespace original) (Name original) patchBytes of
        Inl err \<Rightarrow> (Inl (Wrap err ''error patching backup''), emit (ClientPatch original updated) s)
      | Inr res \<Rightarrow> (Inr res, emit (ClientPatch original updated) s)))))"

subsection \<open>The execution pipeline\<close>

definition closeAndRemoveFile :: "backupController \<Rightarrow> os_File \<Rightarrow> state \<Rightarrow> state" where
  "closeAndRemoveFile c f s0 =
     (let s = emit (FileClose f) s0;
          s = (case file_Close c f of
                 Some err \<Rightarrow> emit (LogError ''error closing file'' err) s | None \<Rightarrow> s);
          s = emit (OsRemove f) s;
          s = (case os_Remove c f of
                 Some err \<Rightarrow> emit (LogError ''error removing file'' err) s | None \<Rightarrow> s)
      in s)"

text \<open>Lines 326 to 376 of \<open>runBackup\<close>: the steps from the Backupper to the returned
  aggregate, none of which returns early. The Backupper receives the object by pointer
  and may change it; the model takes the changed object from \<open>backupper_Backup\<close>.\<close>

definition runBackup_steps ::
  "backupController \<Rightarrow> Backup \<Rightarrow> os_File \<Rightarrow> os_File \<Rightarrow> actions \<Rightarrow> BackupStore \<Rightarrow> state
     \<Rightarrow> Backup \<times> error option \<times> state" where
  "runBackup_steps c backup0 logFile backupFile acts backupStore s0 =
     (let errs = [];
          s = emit (BackupperBackup backup0 backupFile acts) s0;
          (backup, r) = backupper_Backup c backup0 backupFile acts;
          (errs, backup) =
            (case r of
               Some err \<Rightarrow> (errs @ [err], backup\<lparr>Status_Phase := BackupPhaseFailed\<rparr>)
             | None \<Rightarrow> (errs, backup\<lparr>Status_Phase := BackupPhaseCompleted\<rparr>));
          (t, s) = clockNow c s;
          backup = backup\<lparr>Status_CompletionTimestamp := t\<rparr>;
          s = emit (EncodeTo backup) s;
          (errs, backupJSONToUpload, backupFileToUpload) =
            (case encode_EncodeTo c backup of
               Inl err \<Rightarrow> (errs @ [Wrap err ''error encoding backup''], None, None)
             | Inr backupJSON \<Rightarrow> (errs, Some backupJSON, Some backupFile));
          s = emit (FileStat backupFile) s;
          (errs, backupSizeBytes) =
            (case file_Stat c backupFile of
               Inl err \<Rightarrow> (errs @ [Wrap err ''error getting file info''], 0)
             | Inr sz \<Rightarrow> (errs, sz));
          s = emit (GzipClose logFile) s;
          s = (case gzip_Close c logFile of
                 Some err \<Rightarrow> emit (LogError ''error closing gzippedLogFile'' err) s
               | None \<Rightarrow> s);
          s = emit (PutBackup backupStore (Name backup) backupJSONToUpload backupFileToUpload logFile) s;
          errs =
            (case PutBackup_result c backupStore (Name backup) backupJSONToUpload backupFileToUpload logFile of
               Some err \<Rightarrow> errs @ [err]
             | None \<Rightarrow> errs);
          backupScheduleName = getLabel backup ''ark-schedule'';
          s = emit (SetBackupTarballSizeBytesGauge backupScheduleName backupSizeBytes) s;
          backupDuration = Status_CompletionTimestamp backup - Status_StartTimestamp backup;
          s = emit (RegisterBackupDuration backupScheduleName (backupDuration sdiv 1000000000)) s;
          s = emit (Log Info ''Backup completed'') s
      in (backup, NewAggregate errs, s))"

text \<open>Lines 313 to 324, with the deferred \<open>pluginManager.CleanupClients()\<close> run on each
  of the three ways out.\<close>

definition runBackup_plugins ::
  "backupController \<Rightarrow> Backup \<Rightarrow> BackupStorageLocation option \<Rightarrow> os_File \<Rightarrow> os_File \<Rightarrow> state
     \<Rightarrow> Backup \<times> error option \<times> state" where
  "runBackup_plugins c backup backupLocation logFile backupFile s0 =
     (let s = emit NewPluginManager s0 in
      case GetBackupItemActions c of
        Inl err \<Rightarrow> (backup, Some err, emit CleanupClients s)
      | Inr acts \<Rightarrow>
          (let s = emit (NewBackupStore backupLocation) s in
           case newBackupStore c backupLocation of
             Inl err \<Rightarrow> (backup, Some err, emit CleanupClients s)
           | Inr backupStore \<Rightarrow>
               (let (backup, r, s) = runBackup_steps c backup logFile backupFile acts backupStore s
                in (backup, r, emit CleanupClients s))))"

text \<open>Lines 293 to 311, after the log file exists: the second temporary file, and the
  deferred calls of lines 296, 297 and 311 in their order of execution (last deferred
  first).\<close>

definition runBackup_files ::
  "backupController \<Rightarrow> Backup \<Rightarrow> BackupStorageLocation option \<Rightarrow> os_File \<Rightarrow> state
     \<Rightarrow> Backup \<times> error option \<times> state" where
  "runBackup_files c backup0 backupLocation logFile s0 =
     (let s = emit (Log Info ''Starting backup'') s0;
          (backup, r, s) =
            (case ioutil_TempFile c 1 of
               Inl err \<Rightarrow> (backup0, Some (Wrap err ''error creating temp file for backup''), s)
             | Inr backupFile \<Rightarrow>
                 (let s = emit (TempFile backupFile) s;
                      (backup, r, s) = runBackup_plugins c backup0 backupLocation logFile backupFile s
                  in (backup, r, closeAndRemoveFile c backupFile s)));
          s = closeAndRemoveFile c logFile s;
          s = emit (GzipClose logFile) s
      in (backup, r, s))"

text \<open>\<open>runBackup\<close> writes through the pointer \<open>backup\<close>; the model returns the object
  with the error.\<close>

definition runBackup ::
  "backupController \<Rightarrow> Backup \<Rightarrow> BackupStorageLocation option \<Rightarrow> state
     \<Rightarrow> Backup \<times> error option \<times> state" where
  "runBackup c backup0 backupLocation s0 =
     (let s = emit (Log Info ''Starting backup'') s0;
          (t, s) = clockNow c s;
          backup = backup0\<lparr>Status_StartTimestamp := t\<rparr>
      in case ioutil_TempFile c 0 of
           Inl err \<Rightarrow> (backup, Some (Wrap err ''error creating temp file for backup log''), s)
         | Inr logFile \<Rightarrow> runBackup_files c backup backupLocation (logFile) (emit (TempFile logFile) s))"

subsection \<open>Reconcile\<close>

text \<open>Lines 167 to 187 of \<open>processBackup\<close>: the copy of the cached object as it is
  handed to the first patch, with the resolved location.\<close>

definition processBackup_prepare ::
  "backupController \<Rightarrow> Backup \<Rightarrow> state \<Rightarrow> BackupStorageLocation option \<times> Backup \<times> state" where
  "processBackup_prepare c original s0 =
     (let s = emit (Log Debug ''Cloning backup'') s0;
          backup = original\<lparr>Status_Version := backupVersion\<rparr>;
          (backup, s) =
            (if Spec_TTL backup > 0
             then (let (t, s) = clockNow c s
                   in (backup\<lparr>Status_Expiration := t + Spec_TTL backup\<rparr>, s))
             else (backup, s));
          (backupLocation, validationErrors, backup) =
            getLocationAndValidate c backup (defaultBackupLocation c);
          backup = backup\<lparr>Status_ValidationErrors := validationErrors\<rparr>;
          backup =
            (if length (Status_ValidationErrors backup) > 0
             then backup\<lparr>Status_Phase := BackupPhaseFailedValidation\<rparr>
             else backup\<lparr>Status_Phase := BackupPhaseInProgress\<rparr>)
      in (backupLocation, backup, s))"

text \<open>Lines 202 to 216: registration in the tracker, the attempt metric, the pipeline
  and the phase decision. The result is the object handed to the terminal patch.\<close>

definition processBackup_execute ::
  "backupController \<Rightarrow> Backup \<Rightarrow> BackupStorageLocation option \<Rightarrow> state \<Rightarrow> Backup \<times> state" where
  "processBackup_execute c backup0 backupLocation s0 =
     (let s = emit (TrackerAdd (Namespace backup0) (Name backup0)) s0;
          s = emit (Log Debug ''Running backup'') s;
          backupScheduleName = getLabel backup0 ''ark-schedule'';
          s = emit (RegisterBackupAttempt backupScheduleName) s;
          (backup, r, s) = runBackup c backup0 backupLocation s
      in case r of
           Some err \<Rightarrow>
             (backup\<lparr>Status_Phase := BackupPhaseFailed\<rparr>,
              emit (RegisterBackupFailed backupScheduleName) (emit (LogError ''backup failed'' err) s))
         | None \<Rightarrow> (backup, emit (RegisterBackupSuccess backupScheduleName) s))"

text \<open>\<open>processBackup(key)\<close>: the returned error (\<open>None\<close> is \<open>nil\<close>) and the state. The
  deferred \<open>backupTracker.Delete\<close>, whose arguments are evaluated at line 203, runs
  last.\<close>

definition processBackup :: "backupController \<Rightarrow> string \<Rightarrow> state \<Rightarrow> error option \<times> state" where
  "processBackup c key s0 =
     (let s = emit (Log Debug ''Running processBackup'') s0 in
      case SplitMetaNamespaceKey c key of
        Inl err \<Rightarrow> (Some (Wrap err ''error splitting queue key''), s)
      | Inr (ns, name) \<Rightarrow>
     (let s = emit (Log Debug ''Getting backup'') s in
      case lister_Get c ns name of
        Inl err \<Rightarrow> (Some (Wrap err ''error getting backup''), s)
      | Inr cached \<Rightarrow>
     if Status_Phase cached \<noteq> [] \<and> Status_Phase cached \<noteq> BackupPhaseNew then (None, s)
     else
     (let (backupLocation, backup, s) = processBackup_prepare c cached s in
      case patchBackup c cached backup s of
        (Inl err, s) \<Rightarrow>
          (Some (Wrap err (''error updating Backup status to '' @ Status_Phase backup)), s)
      | (Inr updatedBackup, s) \<Rightarrow>
          if Status_Phase updatedBackup = BackupPhaseFailedValidation then (None, s)
          else
            (let (backup, s) = processBackup_execute c updatedBackup backupLocation s;
                 s = emit (Log Debug ''Updating backup's final status'') s;
                 s = (case patchBackup c updatedBackup backup s of
                        (Inl err, s') \<Rightarrow>
                          emit (LogError ''error updating backup's final status'' err) s'
                      | (Inr _, s') \<Rightarrow> s')
             in (None, emit (TrackerDelete (Namespace updatedBackup) (Name updatedBackup)) s)))))"

subsection \<open>Observations on a trace\<close>

text \<open>The events the controller itself issues around the pipeline: tracker, patches and
  the attempt, success and failure counters.\<close>

fun controlEvent :: "event \<Rightarrow> bool" where
  "controlEvent (ClientPatch _ _) = True"
| "controlEvent (TrackerAdd _ _) = True"
| "controlEvent (TrackerDelete _ _) = True"
| "controlEvent (RegisterBackupAttempt _) = True"
| "controlEvent (RegisterBackupFailed _) = True"
| "controlEvent (RegisterBackupSuccess _) = True"
| "controlEvent _ = False"


fun isLog :: "event \<Rightarrow> bool" where
  "isLog (Log _ _) = True"
| "isLog (LogError _ _) = True"
| "isLog _ = False"

text \<open>The objects submitted to the store, in order.\<close>

fun submitted :: "event list \<Rightarrow> Backup list" where
  "submitted [] = []"
| "submitted (ClientPatch original updated # es) = updated # submitted es"
| "submitted (_ # es) = submitted es"

text \<open>The steps of the pipeline, as the events that show them.\<close>

datatype step = Archive | Manifest | Size | LogFlush | Upload | SizeMetric | DurationMetric

fun stepOf :: "event \<Rightarrow> step option" where
  "stepOf (BackupperBackup _ _ _) = Some Archive"
| "stepOf (EncodeTo _) = Some Manifest"
| "stepOf (FileStat _) = Some Size"
| "stepOf (GzipClose _) = Some LogFlush"
| "stepOf (PutBackup _ _ _ _ _) = Some Upload"
| "stepOf (SetBackupTarballSizeBytesGauge _ _) = Some SizeMetric"
| "stepOf (RegisterBackupDuration _ _) = Some DurationMetric"
| "stepOf _ = None"

definition steps :: "event list \<Rightarrow> step list" where
  "steps es = List.map_filter stepOf es"

text \<open>The pipeline's own events, with their arguments.\<close>

definition pipelineEvents :: "event list \<Rightarrow> event list" where
  "pipelineEvents es = filter (\<lambda>e. stepOf e \<noteq> None) es"

text \<open>The state once the key is split and the object read (lines 138 to 147).\<close>

definition fetched :: "state \<Rightarrow> state" where
  "fetched s = emit (Log Debug ''Getting backup'') (emit (Log Debug ''Running processBackup'') s)"

text \<open>The object of the last request sent to the store.\<close>

definition finalStatus :: "state \<Rightarrow> Backup" where
  "finalStatus s = last (submitted (trace s))"

text \<open>The errors \<open>runBackup\<close> collects in \<open>errs\<close>, given the Backupper's result \<open>r\<close> and
  the object \<open>m\<close> that is encoded: Backupper, encoding, stat and upload. The error of the
  log close (line 359) is logged and not collected.\<close>

definition stepErrors ::
  "backupController \<Rightarrow> error option \<Rightarrow> Backup \<Rightarrow> os_File \<Rightarrow> os_File \<Rightarrow> BackupStore \<Rightarrow> error list" where
  "stepErrors c r m lf bf st =
     (case r of Some err \<Rightarrow> [err] | None \<Rightarrow> []) @
     (case encode_EncodeTo c m of
        Inl err \<Rightarrow> [Wrap err ''error encoding backup''] | Inr _ \<Rightarrow> []) @
     (case file_Stat c bf of
        Inl err \<Rightarrow> [Wrap err ''error getting file info''] | Inr _ \<Rightarrow> []) @
     (case PutBackup_result c st (Name m)
             (case encode_EncodeTo c m of Inl _ \<Rightarrow> None | Inr j \<Rightarrow> Some j)
             (case encode_EncodeTo c m of Inl _ \<Rightarrow> None | Inr _ \<Rightarrow> Some bf) lf of
        Some err \<Rightarrow> [err] | None \<Rightarrow> [])"

text \<open>The request \<open>PutBackup\<close> receives for the encoded object \<open>m\<close>: manifest and archive
  only when the encoding succeeded, the log file always.\<close>

definition uploadOf :: "backupController \<Rightarrow> Backup \<Rightarrow> os_File \<Rightarrow> os_File \<Rightarrow> BackupStore \<Rightarrow> event" where
  "uploadOf c m lf bf st =
     PutBackup st (Name m)
       (case encode_EncodeTo c m of Inl _ \<Rightarrow> None | Inr j \<Rightarrow> Some j)
       (case encode_EncodeTo c m of Inl _ \<Rightarrow> None | Inr _ \<Rightarrow> Some bf) lf"

text \<open>Contradictory lists, in the words of the claim: the same name in both lists, or
  "*" beside an explicit name.\<close>

definition contradictory :: "string list \<Rightarrow> string list \<Rightarrow> bool" where
  "contradictory includesList excludesList =
     ((\<exists>x\<in>set includesList. x \<in> set excludesList) \<or>
      wildcardWithExplicit includesList \<or> wildcardWithExplicit excludesList)"

subsection \<open>A concrete controller\<close>

text \<open>A controller with one store location, a clock that advances five seconds per
  reading, and a switch for the fault that one collaborator shows. The store holds three
  requests: a new one, one already completed, and a new one with contradictory lists.\<close>

datatype fault = NoFault | PluginFault | BackupperFault | LogCloseFault | TerminalPatchFault

definition demoBackup :: Backup where
  "demoBackup =
     \<lparr>Namespace = ''heptio-ark'', Name = ''nightly'', Labels = [''ark-schedule'' \<mapsto> ''daily''],
      Spec_TTL = 3600000000000, Spec_StorageLocation = [],
      Spec_IncludedResources = [], Spec_ExcludedResources = [],
      Spec_IncludedNamespaces = [''*''], Spec_ExcludedNamespaces = [''kube-system'', ''kube-system''],
      Spec_SnapshotVolumes = None, Status_Phase = ''New'', Status_Version = 0,
      Status_ValidationErrors = [], Status_Expiration = 0, Status_StartTimestamp = 0,
      Status_CompletionTimestamp = 0\<rparr>"

definition demoFinished :: Backup where
  "demoFinished = demoBackup\<lparr>Name := ''finished'', Status_Phase := ''Completed''\<rparr>"

definition demoContradictory :: Backup where
  "demoContradictory =
     demoBackup\<lparr>Name := ''bad'', Spec_IncludedResources := [''pods''],
       Spec_ExcludedResources := [''pods''], Spec_SnapshotVolumes := Some True\<rparr>"

definition demoLocation :: BackupStorageLocation where
  "demoLocation =
     \<lparr>Location_Namespace = ''heptio-ark'', Location_Name = ''default'', Location_Provider = ''aws''\<rparr>"

text \<open>What the store holds for a request after the first patch, but for the phase.\<close>

definition demoStored :: "string \<Rightarrow> Backup" where
  "demoStored name =
     demoBackup\<lparr>Name := name,
       Labels := [''ark-schedule'' \<mapsto> ''daily'', ''ark.heptio.com/storage-location'' \<mapsto> ''default''],
       Spec_StorageLocation := ''default'', Status_Version := 1,
       Status_Expiration := 3605000000000\<rparr>"

text \<open>The nightly request as the store returns it from the first patch.\<close>

definition demoInProgress :: Backup where
  "demoInProgress = (demoStored ''nightly'')\<lparr>Status_Phase := ''InProgress''\<rparr>"

definition demo :: "fault \<Rightarrow> backupController" where
  "demo f =
     \<lparr>SplitMetaNamespaceKey =
        (\<lambda>key. if key = ''heptio-ark/nightly'' then Inr (''heptio-ark'', ''nightly'')
              else if key = ''heptio-ark/finished'' then Inr (''heptio-ark'', ''finished'')
              else if key = ''heptio-ark/bad'' then Inr (''heptio-ark'', ''bad'')
              else if key = ''heptio-ark/gone'' then Inr (''heptio-ark'', ''gone'')
              else Inl (Error ''unexpected key format'')),
      lister_Get =
        (\<lambda>ns name. if name = ''nightly'' then Inr demoBackup
              else if name = ''finished'' then Inr demoFinished
              else if name = ''bad'' then Inr demoContradictory
              else Inl (Error ''backup not found'')),
      pvProviderExists = False,
      defaultBackupLocation = ''default'',
      StorageLocationLabel = ''ark.heptio.com/storage-location'',
      backupLocationLister_Get =
        (\<lambda>ns name. if name = ''default'' then Inr demoLocation
              else Inl (Error ''backupstoragelocation not found'')),
      clock_Now = (\<lambda>n. 5000000000 * (int n + 1)),
      json_Marshal = (\<lambda>b. Inr (Status_Phase b)),
      CreateMergePatch = (\<lambda>origBytes updatedBytes. Inr updatedBytes),
      client_Patch =
        (\<lambda>ns name patchBytes.
           if f = TerminalPatchFault \<and> patchBytes \<noteq> ''InProgress'' \<and> patchBytes \<noteq> ''FailedValidation''
           then Inl (Error ''the server rejected the request'')
           else Inr ((demoStored name)\<lparr>Status_Phase := patchBytes\<rparr>)),
      ioutil_TempFile = (\<lambda>n. Inr (if n = 0 then ''/tmp/log'' else ''/tmp/backup'')),
      file_Close = (\<lambda>f. None),
      os_Remove = (\<lambda>f. None),
      GetBackupItemActions =
        (if f = PluginFault then Inl (Error ''plugin not found'') else Inr [''pod-action'']),
      newBackupStore =
        (\<lambda>loc. case loc of None \<Rightarrow> Inl (Error ''no location'') | Some l \<Rightarrow> Inr (Location_Name l)),
      backupper_Backup =
        (\<lambda>b backupFile acts.
           (b, if f = BackupperFault then Some (Error ''api server unreachable'') else None)),
      encode_EncodeTo = (\<lambda>b. Inr (Status_Phase b)),
      file_Stat = (\<lambda>f. Inr 2048),
      gzip_Close = (\<lambda>lf. if f = LogCloseFault then Some (Error ''write error'') else None),
      PutBackup_result = (\<lambda>st name manifest archive logFile. None)\<rparr>"

definition s0 :: state where
  "s0 = \<lparr>trace = [], ticks = 0\<rparr>"

section \<open>Properties of the embedding\<close>

subsection \<open>Traces\<close>

lemma trace_emit [simp]: "trace (emit e s) = trace s @ [e]"
  by (simp add: emit_def)

lemma ticks_emit [simp]: "ticks (emit e s) = ticks s"
  by (simp add: emit_def)

lemma trace_fetched [simp]:
  "trace (fetched s) = trace s @ [Log Debug ''Running processBackup'', Log Debug ''Getting backup'']"
  by (simp add: fetched_def)

lemma ticks_fetched [simp]: "ticks (fetched s) = ticks s"
  by (simp add: fetched_def)

lemma steps_append [simp]: "steps (xs @ ys) = steps xs @ steps ys"
  by (simp add: steps_def map_filter_def)

lemma steps_Nil [simp]: "steps [] = []"
  by (simp add: steps_def map_filter_def)

lemma steps_Cons [simp]:
  "steps (e # es) = (case stepOf e of None \<Rightarrow> steps es | Some k \<Rightarrow> k # steps es)"
  by (simp add: steps_def map_filter_def split: option.splits)

lemma submitted_append [simp]: "submitted (xs @ ys) = submitted xs @ submitted ys"
  by (induction xs rule: submitted.induct) simp_all

lemma pipelineEvents_append [simp]:
  "pipelineEvents (xs @ ys) = pipelineEvents xs @ pipelineEvents ys"
  by (simp add: pipelineEvents_def)

lemma pipelineEvents_Nil [simp]: "pipelineEvents [] = []"
  by (simp add: pipelineEvents_def)

lemma pipelineEvents_Cons [simp]:
  "pipelineEvents (e # es) = (if stepOf e = None then pipelineEvents es else e # pipelineEvents es)"
  by (simp add: pipelineEvents_def)

lemma steps_pipelineEvents: "steps (pipelineEvents es) = steps es"
  by (induction es) (auto split: option.splits)

lemma submitted_control: "submitted (filter controlEvent es) = submitted es"
  by (induction es rule: submitted.induct) simp_all


subsection \<open>The patch\<close>

lemma patchBackup_ticks: "ticks (snd (patchBackup c original updated s)) = ticks s"
  by (simp add: patchBackup_def split: sum.splits)

lemma patchBackup_trace:
  "trace (snd (patchBackup c original updated s)) = trace s \<or>
   trace (snd (patchBackup c original updated s)) = trace s @ [ClientPatch original updated]"
  by (simp add: patchBackup_def split: sum.splits)

lemma patchBackup_Inr_trace:
  "patchBackup c original updated s = (Inr r, s') \<Longrightarrow> s' = emit (ClientPatch original updated) s"
  by (auto simp: patchBackup_def split: sum.splits)

subsection \<open>The pipeline\<close>

lemma closeAndRemoveFile_control:
  "filter controlEvent (trace (closeAndRemoveFile c f s)) = filter controlEvent (trace s)"
  by (simp add: closeAndRemoveFile_def Let_def split: option.splits)

lemma closeAndRemoveFile_pipeline:
  "pipelineEvents (trace (closeAndRemoveFile c f s)) = pipelineEvents (trace s)"
  by (simp add: closeAndRemoveFile_def Let_def split: option.splits)

lemma closeAndRemoveFile_ticks: "ticks (closeAndRemoveFile c f s) = ticks s"
  by (simp add: closeAndRemoveFile_def Let_def split: option.splits)

lemma runBackup_steps_exact:
  assumes B: "backupper_Backup c b bf acts = (b1, r)"
    and m: "m = b1\<lparr>Status_Phase := (case r of None \<Rightarrow> BackupPhaseCompleted | Some _ \<Rightarrow> BackupPhaseFailed),
                   Status_CompletionTimestamp := clock_Now c (ticks s)\<rparr>"
  shows "runBackup_steps c b lf bf acts st s =
     (m, NewAggregate (stepErrors c r m lf bf st),
      s\<lparr>trace := trace s @
           [BackupperBackup b bf acts, EncodeTo m, FileStat bf, GzipClose lf] @
           (case gzip_Close c lf of
              Some err \<Rightarrow> [LogError ''error closing gzippedLogFile'' err] | None \<Rightarrow> []) @
           [uploadOf c m lf bf st,
            SetBackupTarballSizeBytesGauge (getLabel m ''ark-schedule'')
              (case file_Stat c bf of Inl _ \<Rightarrow> 0 | Inr sz \<Rightarrow> sz),
            RegisterBackupDuration (getLabel m ''ark-schedule'')
              ((Status_CompletionTimestamp m - Status_StartTimestamp m) sdiv 1000000000),
            Log Info ''Backup completed''],
         ticks := Suc (ticks s)\<rparr>)"
  unfolding runBackup_steps_def B m stepErrors_def uploadOf_def
  by (cases r; cases "gzip_Close c lf";
      simp add: clockNow_def emit_def Let_def getLabel_def split: sum.splits option.splits)

lemma stepOf_uploadOf [simp]: "stepOf (uploadOf c m lf bf st) = Some Upload"
  by (simp add: uploadOf_def)

lemma controlEvent_uploadOf [simp]: "\<not> controlEvent (uploadOf c m lf bf st)"
  by (simp add: uploadOf_def)

lemma runBackup_steps_control:
  "filter controlEvent (trace (snd (snd (runBackup_steps c b lf bf acts st s)))) =
   filter controlEvent (trace s)"
proof -
  obtain b1 r where B: "backupper_Backup c b bf acts = (b1, r)"
    by (cases "backupper_Backup c b bf acts")
  show ?thesis
    by (simp add: runBackup_steps_exact [OF B refl] split: option.splits)
qed

lemma runBackup_steps_ticks:
  "ticks (snd (snd (runBackup_steps c b lf bf acts st s))) = Suc (ticks s)"
proof -
  obtain b1 r where B: "backupper_Backup c b bf acts = (b1, r)"
    by (cases "backupper_Backup c b bf acts")
  show ?thesis
    by (simp add: runBackup_steps_exact [OF B refl])
qed

lemma runBackup_steps_pipeline:
  assumes B: "backupper_Backup c b bf acts = (b1, r)"
    and m: "m = b1\<lparr>Status_Phase := (case r of None \<Rightarrow> BackupPhaseCompleted | Some _ \<Rightarrow> BackupPhaseFailed),
                   Status_CompletionTimestamp := clock_Now c (ticks s)\<rparr>"
  shows "pipelineEvents (trace (snd (snd (runBackup_steps c b lf bf acts st s)))) =
     pipelineEvents (trace s) @
       [BackupperBackup b bf acts, EncodeTo m, FileStat bf, GzipClose lf, uploadOf c m lf bf st,
        SetBackupTarballSizeBytesGauge (getLabel m ''ark-schedule'')
          (case file_Stat c bf of Inl _ \<Rightarrow> 0 | Inr sz \<Rightarrow> sz),
        RegisterBackupDuration (getLabel m ''ark-schedule'')
          ((Status_CompletionTimestamp m - Status_StartTimestamp m) sdiv 1000000000)]"
  by (simp add: runBackup_steps_exact [OF B m] split: option.splits)

lemma runBackup_plugins_ok:
  assumes A: "GetBackupItemActions c = Inr acts" and S: "newBackupStore c loc = Inr st"
  shows "runBackup_plugins c b loc lf bf s =
     (fst (runBackup_steps c b lf bf acts st (emit (NewBackupStore loc) (emit NewPluginManager s))),
      fst (snd (runBackup_steps c b lf bf acts st (emit (NewBackupStore loc) (emit NewPluginManager s)))),
      emit CleanupClients
        (snd (snd (runBackup_steps c b lf bf acts st (emit (NewBackupStore loc) (emit NewPluginManager s))))))"
  by (simp add: runBackup_plugins_def A S Let_def split: prod.splits)

lemma runBackup_plugins_control:
  "filter controlEvent (trace (snd (snd (runBackup_plugins c b loc lf bf s)))) =
   filter controlEvent (trace s)"
proof (cases "GetBackupItemActions c")
  case (Inl e)
  then show ?thesis by (simp add: runBackup_plugins_def)
next
  case A: (Inr acts)
  show ?thesis
  proof (cases "newBackupStore c loc")
    case (Inl e)
    with A show ?thesis by (simp add: runBackup_plugins_def)
  next
    case S: (Inr st)
    show ?thesis
      by (simp add: runBackup_plugins_ok [OF A S] runBackup_steps_control)
  qed
qed

lemma runBackup_files_ok:
  assumes T1: "ioutil_TempFile c 1 = Inr bf"
  shows "runBackup_files c b loc lf s =
     (fst (runBackup_plugins c b loc lf bf (emit (TempFile bf) (emit (Log Info ''Starting backup'') s))),
      fst (snd (runBackup_plugins c b loc lf bf (emit (TempFile bf) (emit (Log Info ''Starting backup'') s)))),
      emit (GzipClose lf) (closeAndRemoveFile c lf (closeAndRemoveFile c bf
        (snd (snd (runBackup_plugins c b loc lf bf (emit (TempFile bf) (emit (Log Info ''Starting backup'') s))))))))"
  unfolding runBackup_files_def T1
  by (simp add: Let_def split: prod.splits)

lemma runBackup_files_control:
  "filter controlEvent (trace (snd (snd (runBackup_files c b loc lf s)))) =
   filter controlEvent (trace s)"
proof (cases "ioutil_TempFile c 1")
  case (Inl e)
  then show ?thesis
    by (simp add: runBackup_files_def closeAndRemoveFile_control)
next
  case (Inr bf)
  show ?thesis
    by (simp add: runBackup_files_ok [OF Inr] closeAndRemoveFile_control runBackup_plugins_control)
qed

lemma runBackup_control:
  "filter controlEvent (trace (snd (snd (runBackup c b loc s)))) = filter controlEvent (trace s)"
  by (simp add: runBackup_def clockNow_def Let_def runBackup_files_control split: sum.splits)

text \<open>The run in which both temporary files, the item actions and the store are obtained.\<close>

lemma runBackup_ok:
  assumes T0: "ioutil_TempFile c 0 = Inr lf" and T1: "ioutil_TempFile c 1 = Inr bf"
    and A: "GetBackupItemActions c = Inr acts" and S: "newBackupStore c loc = Inr st"
    and B: "backupper_Backup c (b\<lparr>Status_StartTimestamp := clock_Now c (ticks s)\<rparr>) bf acts = (b1, r)"
    and m: "m = b1\<lparr>Status_Phase := (case r of None \<Rightarrow> BackupPhaseCompleted | Some _ \<Rightarrow> BackupPhaseFailed),
                   Status_CompletionTimestamp := clock_Now c (Suc (ticks s))\<rparr>"
  shows "fst (runBackup c b loc s) = m"
    and "fst (snd (runBackup c b loc s)) = NewAggregate (stepErrors c r m lf bf st)"
    and "pipelineEvents (trace (snd (snd (runBackup c b loc s)))) =
           pipelineEvents (trace s) @
             [BackupperBackup (b\<lparr>Status_StartTimestamp := clock_Now c (ticks s)\<rparr>) bf acts,
              EncodeTo m, FileStat bf, GzipClose lf, uploadOf c m lf bf st,
              SetBackupTarballSizeBytesGauge (getLabel m ''ark-schedule'')
                (case file_Stat c bf of Inl _ \<Rightarrow> 0 | Inr sz \<Rightarrow> sz),
              RegisterBackupDuration (getLabel m ''ark-schedule'')
                ((Status_CompletionTimestamp m - Status_StartTimestamp m) sdiv 1000000000),
              GzipClose lf]"
    and "ticks (snd (snd (runBackup c b loc s))) = Suc (Suc (ticks s))"
proof -
  let ?b = "b\<lparr>Status_StartTimestamp := clock_Now c (ticks s)\<rparr>"
  let ?s1 = "emit (TempFile lf) ((emit (Log Info ''Starting backup'') s)\<lparr>ticks := Suc (ticks s)\<rparr>)"
  let ?s2 = "emit (NewBackupStore loc) (emit NewPluginManager
               (emit (TempFile bf) (emit (Log Info ''Starting backup'') ?s1)))"
  have R: "runBackup c b loc s = runBackup_files c ?b loc lf ?s1"
    by (simp add: runBackup_def clockNow_def T0 emit_def Let_def)
  have tk: "ticks ?s2 = Suc (ticks s)" by simp
  have E: "runBackup_steps c ?b lf bf acts st ?s2 = 
     (m, NewAggregate (stepErrors c r m lf bf st),
      ?s2\<lparr>trace := trace ?s2 @
           [BackupperBackup ?b bf acts, EncodeTo m, FileStat bf, GzipClose lf] @
           (case gzip_Close c lf of
              Some err \<Rightarrow> [LogError ''error closing gzippedLogFile'' err] | None \<Rightarrow> []) @
           [uploadOf c m lf bf st,
            SetBackupTarballSizeBytesGauge (getLabel m ''ark-schedule'')
              (case file_Stat c bf of Inl _ \<Rightarrow> 0 | Inr sz \<Rightarrow> sz),
            RegisterBackupDuration (getLabel m ''ark-schedule'')
              ((Status_CompletionTimestamp m - Status_StartTimestamp m) sdiv 1000000000),
            Log Info ''Backup completed''],
         ticks := Suc (ticks ?s2)\<rparr>)"
    by (rule runBackup_steps_exact [OF B]) (simp add: m)
  show "fst (runBackup c b loc s) = m"
    by (simp add: R runBackup_files_ok [OF T1] runBackup_plugins_ok [OF A S] E)
  show "fst (snd (runBackup c b loc s)) = NewAggregate (stepErrors c r m lf bf st)"
    by (simp add: R runBackup_files_ok [OF T1] runBackup_plugins_ok [OF A S] E)
  show "pipelineEvents (trace (snd (snd (runBackup c b loc s)))) =
           pipelineEvents (trace s) @
             [BackupperBackup ?b bf acts,
              EncodeTo m, FileStat bf, GzipClose lf, uploadOf c m lf bf st,
              SetBackupTarballSizeBytesGauge (getLabel m ''ark-schedule'')
                (case file_Stat c bf of Inl _ \<Rightarrow> 0 | Inr sz \<Rightarrow> sz),
              RegisterBackupDuration (getLabel m ''ark-schedule'')
                ((Status_CompletionTimestamp m - Status_StartTimestamp m) sdiv 1000000000),
              GzipClose lf]"
    by (simp add: R runBackup_files_ok [OF T1] runBackup_plugins_ok [OF A S] E
          closeAndRemoveFile_pipeline split: option.splits)
  show "ticks (snd (snd (runBackup c b loc s))) = Suc (Suc (ticks s))"
    by (simp add: R runBackup_files_ok [OF T1] runBackup_plugins_ok [OF A S] E
          closeAndRemoveFile_ticks)
qed

subsection \<open>Preparation\<close>

lemma getLocationAndValidate_errors:
  "fst (snd (getLocationAndValidate c itm d)) =
     map (\<lambda>err. ''Invalid included/excluded resource lists: '' @ Error_msg err)
       (ValidateIncludesExcludes (Spec_IncludedResources itm) (Spec_ExcludedResources itm)) @
     map (\<lambda>err. ''Invalid included/excluded namespace lists: '' @ Error_msg err)
       (ValidateIncludesExcludes (Spec_IncludedNamespaces itm) (Spec_ExcludedNamespaces itm)) @
     (if \<not> pvProviderExists c \<and> Spec_SnapshotVolumes itm = Some True
      then [''Server is not configured for PV snapshots''] else []) @
     (case backupLocationLister_Get c (Namespace itm)
             (if Spec_StorageLocation itm = [] then d else Spec_StorageLocation itm) of
        Inl err \<Rightarrow> [''Error getting backup storage location: '' @ Error_msg err]
      | Inr _ \<Rightarrow> [])"
  by (simp add: getLocationAndValidate_def Let_def split: sum.splits)

lemma getLocationAndValidate_object:
  "snd (snd (getLocationAndValidate c itm d)) =
     itm\<lparr>Spec_StorageLocation := (if Spec_StorageLocation itm = [] then d else Spec_StorageLocation itm),
         Labels := (Labels itm)(StorageLocationLabel c \<mapsto>
                      (if Spec_StorageLocation itm = [] then d else Spec_StorageLocation itm))\<rparr>"
  by (simp add: getLocationAndValidate_def Let_def split: sum.splits)

lemma processBackup_prepare_state:
  "snd (snd (processBackup_prepare c b s)) =
     (emit (Log Debug ''Cloning backup'') s)
       \<lparr>ticks := (if Spec_TTL b > 0 then Suc (ticks s) else ticks s)\<rparr>"
  by (simp add: processBackup_prepare_def clockNow_def Let_def emit_def split: prod.splits)

lemma processBackup_prepare_object:
  "fst (snd (processBackup_prepare c b s)) =
     (let b1 = b\<lparr>Status_Version := backupVersion\<rparr>;
          b2 = (if Spec_TTL b > 0
                then b1\<lparr>Status_Expiration := clock_Now c (ticks s) + Spec_TTL b\<rparr> else b1);
          errs = fst (snd (getLocationAndValidate c b2 (defaultBackupLocation c)))
      in (snd (snd (getLocationAndValidate c b2 (defaultBackupLocation c))))
           \<lparr>Status_ValidationErrors := errs,
            Status_Phase := (if errs = [] then BackupPhaseInProgress
                             else BackupPhaseFailedValidation)\<rparr>)"
  by (simp add: processBackup_prepare_def clockNow_def Let_def emit_def split: prod.splits)


subsection \<open>The ways through processBackup\<close>

lemma processBackup_gate:
  assumes "SplitMetaNamespaceKey c key = Inr (ns, name)" and "lister_Get c ns name = Inr b"
    and "Status_Phase b \<noteq> []" and "Status_Phase b \<noteq> BackupPhaseNew"
  shows "processBackup c key s = (None, fetched s)"
  using assms by (simp add: processBackup_def fetched_def)

lemma processBackup_new:
  assumes "SplitMetaNamespaceKey c key = Inr (ns, name)" and "lister_Get c ns name = Inr b"
    and "Status_Phase b = [] \<or> Status_Phase b = BackupPhaseNew"
    and "processBackup_prepare c b (fetched s) = (loc, u, s1)"
  shows "processBackup c key s =
     (case patchBackup c b u s1 of
        (Inl err, s2) \<Rightarrow>
          (Some (Wrap err (''error updating Backup status to '' @ Status_Phase u)), s2)
      | (Inr r, s2) \<Rightarrow>
          if Status_Phase r = BackupPhaseFailedValidation then (None, s2)
          else
            (let (backup, s3) = processBackup_execute c r loc s2;
                 s4 = emit (Log Debug ''Updating backup's final status'') s3;
                 s5 = (case patchBackup c r backup s4 of
                        (Inl err, s') \<Rightarrow>
                          emit (LogError ''error updating backup's final status'' err) s'
                      | (Inr _, s') \<Rightarrow> s')
             in (None, emit (TrackerDelete (Namespace r) (Name r)) s5)))"
  using assms by (auto simp add: processBackup_def fetched_def)

subsection \<open>Execution\<close>

lemma NewAggregate_None [simp]: "NewAggregate es = None \<longleftrightarrow> es = []"
  by (simp add: NewAggregate_def)

lemma stepErrors_Nil:
  "stepErrors c r m lf bf st = [] \<longleftrightarrow>
     r = None \<and> \<not> isl (encode_EncodeTo c m) \<and> \<not> isl (file_Stat c bf) \<and>
     PutBackup_result c st (Name m)
       (case encode_EncodeTo c m of Inl _ \<Rightarrow> None | Inr j \<Rightarrow> Some j)
       (case encode_EncodeTo c m of Inl _ \<Rightarrow> None | Inr _ \<Rightarrow> Some bf) lf = None"
  by (simp add: stepErrors_def split: option.splits sum.splits)

lemma runBackup_nil_completed:
  assumes N: "fst (snd (runBackup c b loc s)) = None"
  shows "Status_Phase (fst (runBackup c b loc s)) = BackupPhaseCompleted"
proof (cases "ioutil_TempFile c 0")
  case (Inl e)
  with N show ?thesis by (simp add: runBackup_def clockNow_def Let_def)
next
  case T0: (Inr lf)
  show ?thesis
  proof (cases "ioutil_TempFile c 1")
    case (Inl e)
    with N T0 show ?thesis
      by (simp add: runBackup_def runBackup_files_def clockNow_def Let_def)
  next
    case T1: (Inr bf)
    show ?thesis
    proof (cases "GetBackupItemActions c")
      case (Inl e)
      with N T0 T1 show ?thesis
        by (simp add: runBackup_def runBackup_files_def runBackup_plugins_def clockNow_def Let_def)
    next
      case A: (Inr acts)
      show ?thesis
      proof (cases "newBackupStore c loc")
        case (Inl e)
        with N T0 T1 A show ?thesis
          by (simp add: runBackup_def runBackup_files_def runBackup_plugins_def clockNow_def Let_def)
      next
        case S: (Inr st)
        obtain b1 r where
          B: "backupper_Backup c (b\<lparr>Status_StartTimestamp := clock_Now c (ticks s)\<rparr>) bf acts = (b1, r)"
          by (cases "backupper_Backup c (b\<lparr>Status_StartTimestamp := clock_Now c (ticks s)\<rparr>) bf acts")
        note ok = runBackup_ok [OF T0 T1 A S B refl]
        from N ok(2) have "r = None" by (simp add: stepErrors_Nil)
        with ok(1) show ?thesis by simp
      qed
    qed
  qed
qed

lemma processBackup_execute_unfold:
  "processBackup_execute c b loc s =
     (case fst (snd (runBackup c b loc
             (emit (RegisterBackupAttempt (getLabel b ''ark-schedule''))
               (emit (Log Debug ''Running backup'') (emit (TrackerAdd (Namespace b) (Name b)) s))))) of
        Some err \<Rightarrow>
          ((fst (runBackup c b loc
             (emit (RegisterBackupAttempt (getLabel b ''ark-schedule''))
               (emit (Log Debug ''Running backup'') (emit (TrackerAdd (Namespace b) (Name b)) s)))))
             \<lparr>Status_Phase := BackupPhaseFailed\<rparr>,
           emit (RegisterBackupFailed (getLabel b ''ark-schedule''))
             (emit (LogError ''backup failed'' err)
               (snd (snd (runBackup c b loc
                 (emit (RegisterBackupAttempt (getLabel b ''ark-schedule''))
                   (emit (Log Debug ''Running backup'') (emit (TrackerAdd (Namespace b) (Name b)) s))))))))
      | None \<Rightarrow>
          (fst (runBackup c b loc
             (emit (RegisterBackupAttempt (getLabel b ''ark-schedule''))
               (emit (Log Debug ''Running backup'') (emit (TrackerAdd (Namespace b) (Name b)) s)))),
           emit (RegisterBackupSuccess (getLabel b ''ark-schedule''))
             (snd (snd (runBackup c b loc
               (emit (RegisterBackupAttempt (getLabel b ''ark-schedule''))
                 (emit (Log Debug ''Running backup'') (emit (TrackerAdd (Namespace b) (Name b)) s))))))))"
  by (simp add: processBackup_execute_def Let_def split: prod.splits option.splits)

lemma processBackup_execute_phase:
  "Status_Phase (fst (processBackup_execute c b loc s)) = BackupPhaseCompleted \<or>
   Status_Phase (fst (processBackup_execute c b loc s)) = BackupPhaseFailed"
  by (simp add: processBackup_execute_unfold runBackup_nil_completed split: option.splits)


lemma processBackup_execute_submitted:
  "submitted (trace (snd (processBackup_execute c b loc s))) = submitted (trace s)"
proof -
  let ?s = "emit (RegisterBackupAttempt (getLabel b ''ark-schedule''))
              (emit (Log Debug ''Running backup'') (emit (TrackerAdd (Namespace b) (Name b)) s))"
  have "submitted (trace (snd (snd (runBackup c b loc ?s)))) =
        submitted (filter controlEvent (trace (snd (snd (runBackup c b loc ?s)))))"
    by (simp only: submitted_control)
  also have "\<dots> = submitted (filter controlEvent (trace ?s))"
    by (simp only: runBackup_control)
  also have "\<dots> = submitted (trace ?s)"
    by (simp only: submitted_control)
  also have "\<dots> = submitted (trace s)"
    by simp
  finally have "submitted (trace (snd (snd (runBackup c b loc ?s)))) = submitted (trace s)" .
  then show ?thesis
    by (simp add: processBackup_execute_unfold split: option.splits)
qed

lemma processBackup_prepare_location:
  "fst (processBackup_prepare c b s) =
     fst (getLocationAndValidate c
            (if Spec_TTL b > 0
             then b\<lparr>Status_Version := backupVersion,
                    Status_Expiration := clock_Now c (ticks s) + Spec_TTL b\<rparr>
             else b\<lparr>Status_Version := backupVersion\<rparr>)
            (defaultBackupLocation c))"
  by (simp add: processBackup_prepare_def clockNow_def Let_def emit_def split: prod.splits)

subsection \<open>The concrete controller\<close>

lemma demo_split:
  "SplitMetaNamespaceKey (demo f) ''heptio-ark/nightly'' = Inr (''heptio-ark'', ''nightly'')"
  by (simp add: demo_def)

lemma demo_get: "lister_Get (demo f) ''heptio-ark'' ''nightly'' = Inr demoBackup"
  by (simp add: demo_def)

lemma demo_new: "Status_Phase demoBackup = [] \<or> Status_Phase demoBackup = BackupPhaseNew"
  by (simp add: demoBackup_def BackupPhaseNew_def)

lemma demo_name: "Name demoBackup = ''nightly''" "Namespace demoBackup = ''heptio-ark''"
  by (simp_all add: demoBackup_def)

lemma demo_validate:
  "fst (getLocationAndValidate (demo f) (demoBackup\<lparr>Status_Version := v, Status_Expiration := x\<rparr>) ''default'') =
     Some demoLocation"
  "fst (snd (getLocationAndValidate (demo f) (demoBackup\<lparr>Status_Version := v, Status_Expiration := x\<rparr>) ''default'')) = []"
  by (simp_all add: getLocationAndValidate_def ValidateIncludesExcludes_def wildcardWithExplicit_def
        demo_def demoBackup_def)

lemma demo_prepare:
  "fst (processBackup_prepare (demo f) demoBackup s) = Some demoLocation"
  "Status_Phase (fst (snd (processBackup_prepare (demo f) demoBackup s))) = ''InProgress''"
  "Status_Expiration (fst (snd (processBackup_prepare (demo f) demoBackup s))) =
     5000000000 * (int (ticks s) + 1) + 3600000000000"
proof -
  have T: "Spec_TTL demoBackup = 3600000000000" by (simp add: demoBackup_def)
  have D: "defaultBackupLocation (demo f) = ''default''" by (simp add: demo_def)
  have C: "clock_Now (demo f) n = 5000000000 * (int n + 1)" for n by (simp add: demo_def)
  show "fst (processBackup_prepare (demo f) demoBackup s) = Some demoLocation"
    by (simp add: processBackup_prepare_location T D demo_validate)
  show "Status_Phase (fst (snd (processBackup_prepare (demo f) demoBackup s))) = ''InProgress''"
    by (simp add: processBackup_prepare_object Let_def T D demo_validate BackupPhaseInProgress_def)
  show "Status_Expiration (fst (snd (processBackup_prepare (demo f) demoBackup s))) =
     5000000000 * (int (ticks s) + 1) + 3600000000000"
    by (simp add: processBackup_prepare_object getLocationAndValidate_object Let_def T D C)
qed

lemma demo_patch_first:
  assumes "Status_Phase u = ''InProgress'' \<or> Status_Phase u = ''FailedValidation''"
  shows "patchBackup (demo f) b u s =
     (Inr ((demoStored (Name b))\<lparr>Status_Phase := Status_Phase u\<rparr>), emit (ClientPatch b u) s)"
  using assms by (auto simp add: patchBackup_def demo_def)

lemma demo_patch_rejected:
  assumes "Status_Phase u = BackupPhaseCompleted \<or> Status_Phase u = BackupPhaseFailed"
  shows "patchBackup (demo TerminalPatchFault) b u s =
     (Inl (Wrap (Error ''the server rejected the request'') ''error patching backup''),
      emit (ClientPatch b u) s)"
  using assms
  by (auto simp add: patchBackup_def demo_def BackupPhaseCompleted_def BackupPhaseFailed_def)



text \<open>The definitions to unfold for running the concrete controller.\<close>

lemmas demo_eval =
  processBackup_def processBackup_prepare_def processBackup_execute_def runBackup_def
  runBackup_files_def runBackup_plugins_def runBackup_steps_def closeAndRemoveFile_def
  patchBackup_def getLocationAndValidate_def ValidateIncludesExcludes_def wildcardWithExplicit_def
  clockNow_def emit_def Let_def demo_def demoBackup_def demoStored_def demoLocation_def
  demoContradictory_def demoFinished_def demoInProgress_def s0_def
  NewAggregate_def getLabel_def BackupPhaseNew_def BackupPhaseFailedValidation_def
  BackupPhaseInProgress_def BackupPhaseCompleted_def BackupPhaseFailed_def backupVersion_def

subsection \<open>Validation of the lists\<close>

lemma ValidateIncludesExcludes_contradictory:
  assumes "contradictory includesList excludesList"
  shows "ValidateIncludesExcludes includesList excludesList \<noteq> []"
proof (cases "wildcardWithExplicit includesList \<or> wildcardWithExplicit excludesList")
  case True
  then show ?thesis by (auto simp add: ValidateIncludesExcludes_def)
next
  case False
  with assms obtain x where "x \<in> set includesList" and "x \<in> set excludesList"
    by (auto simp add: contradictory_def)
  then have "x \<in> set (filter (\<lambda>itm. itm \<in> set includesList) (remdups excludesList))"
    by simp
  then have "filter (\<lambda>itm. itm \<in> set includesList) (remdups excludesList) \<noteq> []"
    by (metis empty_iff list.set(1))
  then show ?thesis by (simp add: ValidateIncludesExcludes_def)
qed

lemma patchBackup_submitted:
  "submitted (trace (snd (patchBackup c original updated s))) = submitted (trace s) \<or>
   submitted (trace (snd (patchBackup c original updated s))) = submitted (trace s) @ [updated]"
  by (simp add: patchBackup_def split: sum.splits)

lemma phases_distinct:
  "BackupPhaseFailedValidation \<noteq> BackupPhaseInProgress"
  "BackupPhaseCompleted \<noteq> BackupPhaseInProgress"
  "BackupPhaseFailed \<noteq> BackupPhaseInProgress"
  by (simp_all add: BackupPhaseFailedValidation_def BackupPhaseInProgress_def
        BackupPhaseCompleted_def BackupPhaseFailed_def)

subsection \<open>Execution with all resources obtained\<close>

lemma set_pipelineEvents: "e \<in> set (pipelineEvents es) \<Longrightarrow> e \<in> set es"
  by (simp add: pipelineEvents_def)

lemma processBackup_execute_ok:
  assumes T0: "ioutil_TempFile c 0 = Inr lf" and T1: "ioutil_TempFile c 1 = Inr bf"
    and A: "GetBackupItemActions c = Inr acts" and S: "newBackupStore c loc = Inr st"
    and B: "backupper_Backup c (b\<lparr>Status_StartTimestamp := clock_Now c (ticks s)\<rparr>) bf acts = (b1, r)"
    and m: "m = b1\<lparr>Status_Phase := (case r of None \<Rightarrow> BackupPhaseCompleted | Some _ \<Rightarrow> BackupPhaseFailed),
                   Status_CompletionTimestamp := clock_Now c (Suc (ticks s))\<rparr>"
  shows "fst (processBackup_execute c b loc s) =
           (if stepErrors c r m lf bf st = [] then m else m\<lparr>Status_Phase := BackupPhaseFailed\<rparr>)"
    and "pipelineEvents (trace (snd (processBackup_execute c b loc s))) =
           pipelineEvents (trace s) @
             [BackupperBackup (b\<lparr>Status_StartTimestamp := clock_Now c (ticks s)\<rparr>) bf acts,
              EncodeTo m, FileStat bf, GzipClose lf, uploadOf c m lf bf st,
              SetBackupTarballSizeBytesGauge (getLabel m ''ark-schedule'')
                (case file_Stat c bf of Inl _ \<Rightarrow> 0 | Inr sz \<Rightarrow> sz),
              RegisterBackupDuration (getLabel m ''ark-schedule'')
                ((Status_CompletionTimestamp m - Status_StartTimestamp m) sdiv 1000000000),
              GzipClose lf]"
    and "last (trace (snd (processBackup_execute c b loc s))) =
           (if stepErrors c r m lf bf st = [] then RegisterBackupSuccess (getLabel b ''ark-schedule'')
            else RegisterBackupFailed (getLabel b ''ark-schedule''))"
proof -
  let ?s = "emit (RegisterBackupAttempt (getLabel b ''ark-schedule''))
              (emit (Log Debug ''Running backup'') (emit (TrackerAdd (Namespace b) (Name b)) s))"
  have B': "backupper_Backup c (b\<lparr>Status_StartTimestamp := clock_Now c (ticks ?s)\<rparr>) bf acts = (b1, r)"
    using B by simp
  have m': "m = b1\<lparr>Status_Phase := (case r of None \<Rightarrow> BackupPhaseCompleted | Some _ \<Rightarrow> BackupPhaseFailed),
                   Status_CompletionTimestamp := clock_Now c (Suc (ticks ?s))\<rparr>"
    using m by simp
  note ok = runBackup_ok [OF T0 T1 A S B' m']
  show "fst (processBackup_execute c b loc s) =
           (if stepErrors c r m lf bf st = [] then m else m\<lparr>Status_Phase := BackupPhaseFailed\<rparr>)"
    by (simp add: processBackup_execute_unfold ok(1,2) NewAggregate_def)
  show "pipelineEvents (trace (snd (processBackup_execute c b loc s))) =
           pipelineEvents (trace s) @
             [BackupperBackup (b\<lparr>Status_StartTimestamp := clock_Now c (ticks s)\<rparr>) bf acts,
              EncodeTo m, FileStat bf, GzipClose lf, uploadOf c m lf bf st,
              SetBackupTarballSizeBytesGauge (getLabel m ''ark-schedule'')
                (case file_Stat c bf of Inl _ \<Rightarrow> 0 | Inr sz \<Rightarrow> sz),
              RegisterBackupDuration (getLabel m ''ark-schedule'')
                ((Status_CompletionTimestamp m - Status_StartTimestamp m) sdiv 1000000000),
              GzipClose lf]"
    using ok(3) by (simp add: processBackup_execute_unfold ok(2) NewAggregate_def)
  show "last (trace (snd (processBackup_execute c b loc s))) =
           (if stepErrors c r m lf bf st = [] then RegisterBackupSuccess (getLabel b ''ark-schedule'')
            else RegisterBackupFailed (getLabel b ''ark-schedule''))"
    by (simp add: processBackup_execute_unfold ok(2) NewAggregate_def)
qed

lemma demo_resources:
  "ioutil_TempFile (demo f) 0 = Inr ''/tmp/log''"
  "ioutil_TempFile (demo f) 1 = Inr ''/tmp/backup''"
  "newBackupStore (demo f) (Some demoLocation) = Inr ''default''"
  "f \<noteq> PluginFault \<Longrightarrow> GetBackupItemActions (demo f) = Inr [''pod-action'']"
  by (simp_all add: demo_def demoLocation_def)

subsection \<open>What the pipeline leaves of the timestamps\<close>

lemma runBackup_timestamps:
  assumes BP: "\<And>x f a. Status_Expiration (fst (backupper_Backup c x f a)) = Status_Expiration x \<and>
                 Status_StartTimestamp (fst (backupper_Backup c x f a)) = Status_StartTimestamp x"
  shows "Status_Expiration (fst (runBackup c b loc s)) = Status_Expiration b \<and>
         Status_StartTimestamp (fst (runBackup c b loc s)) = clock_Now c (ticks s)"
proof (cases "ioutil_TempFile c 0")
  case (Inl e)
  then show ?thesis by (simp add: runBackup_def clockNow_def Let_def)
next
  case T0: (Inr lf)
  show ?thesis
  proof (cases "ioutil_TempFile c 1")
    case (Inl e)
    with T0 show ?thesis
      by (simp add: runBackup_def runBackup_files_def clockNow_def Let_def)
  next
    case T1: (Inr bf)
    show ?thesis
    proof (cases "GetBackupItemActions c")
      case (Inl e)
      with T0 T1 show ?thesis
        by (simp add: runBackup_def runBackup_files_def runBackup_plugins_def clockNow_def Let_def)
    next
      case A: (Inr acts)
      show ?thesis
      proof (cases "newBackupStore c loc")
        case (Inl e)
        with T0 T1 A show ?thesis
          by (simp add: runBackup_def runBackup_files_def runBackup_plugins_def clockNow_def Let_def)
      next
        case S: (Inr st)
        let ?b = "b\<lparr>Status_StartTimestamp := clock_Now c (ticks s)\<rparr>"
        obtain b1 r where B: "backupper_Backup c ?b bf acts = (b1, r)"
          by (cases "backupper_Backup c ?b bf acts")
        from BP [of ?b bf acts] B
        have b1: "Status_Expiration b1 = Status_Expiration b"
                 "Status_StartTimestamp b1 = clock_Now c (ticks s)"
          by simp_all
        show ?thesis
          by (simp add: runBackup_ok(1) [OF T0 T1 A S B refl] b1)
      qed
    qed
  qed
qed

lemma processBackup_execute_timestamps:
  assumes BP: "\<And>x f a. Status_Expiration (fst (backupper_Backup c x f a)) = Status_Expiration x \<and>
                 Status_StartTimestamp (fst (backupper_Backup c x f a)) = Status_StartTimestamp x"
  shows "Status_Expiration (fst (processBackup_execute c b loc s)) = Status_Expiration b \<and>
         Status_StartTimestamp (fst (processBackup_execute c b loc s)) = clock_Now c (ticks s)"
  using runBackup_timestamps [OF BP, of b loc
          "emit (RegisterBackupAttempt (getLabel b ''ark-schedule''))
             (emit (Log Debug ''Running backup'') (emit (TrackerAdd (Namespace b) (Name b)) s))"]
  by (simp add: processBackup_execute_unfold split: option.splits)

lemma closeAndRemoveFile_steps:
  "steps (trace (closeAndRemoveFile c f s)) = steps (trace s)"
  using arg_cong [OF closeAndRemoveFile_pipeline, of steps c f s]
  by (simp add: steps_pipelineEvents)

text \<open>The run in which a temporary file, the item actions or the store is not obtained.\<close>

lemma runBackup_early:
  assumes "isl (ioutil_TempFile c 0) \<or> isl (ioutil_TempFile c 1) \<or>
           isl (GetBackupItemActions c) \<or> isl (newBackupStore c loc)"
  shows "fst (snd (runBackup c b loc s)) \<noteq> None \<and>
         (steps (trace (snd (snd (runBackup c b loc s)))) = steps (trace s) \<or>
          steps (trace (snd (snd (runBackup c b loc s)))) = steps (trace s) @ [LogFlush])"
proof (cases "ioutil_TempFile c 0")
  case (Inl e)
  then show ?thesis by (simp add: runBackup_def clockNow_def Let_def)
next
  case T0: (Inr lf)
  show ?thesis
  proof (cases "ioutil_TempFile c 1")
    case (Inl e)
    with T0 show ?thesis
      by (simp add: runBackup_def runBackup_files_def clockNow_def Let_def closeAndRemoveFile_steps)
  next
    case T1: (Inr bf)
    show ?thesis
    proof (cases "GetBackupItemActions c")
      case (Inl e)
      with T0 T1 show ?thesis
        by (simp add: runBackup_def runBackup_files_def runBackup_plugins_def clockNow_def Let_def
              closeAndRemoveFile_steps)
    next
      case A: (Inr acts)
      show ?thesis
      proof (cases "newBackupStore c loc")
        case (Inl e)
        with T0 T1 A show ?thesis
          by (simp add: runBackup_def runBackup_files_def runBackup_plugins_def clockNow_def Let_def
                closeAndRemoveFile_steps)
      next
        case (Inr st)
        with assms T0 T1 A show ?thesis by simp
      qed
    qed
  qed
qed

section \<open>The claims\<close>

text \<open>Claim C1. When the object read for the key has a phase other than the empty one and
  New, \<open>processBackup\<close> returns \<open>nil\<close>; it has written two debug lines and nothing else:
  no patch, no tracker entry, no metric, no pipeline step, and the clock is not read.\<close>

theorem processBackup_gate_no_effects:
  assumes "SplitMetaNamespaceKey c key = Inr (ns, name)" and "lister_Get c ns name = Inr b"
    and "Status_Phase b \<noteq> []" and "Status_Phase b \<noteq> BackupPhaseNew"
  shows "fst (processBackup c key s) = None \<and>
         trace (snd (processBackup c key s)) =
           trace s @ [Log Debug ''Running processBackup'', Log Debug ''Getting backup''] \<and>
         ticks (snd (processBackup c key s)) = ticks s"
  by (simp add: processBackup_gate [OF assms])

theorem processBackup_gate_no_effects_witness:
  "fst (processBackup (demo NoFault) ''heptio-ark/finished'' s0) = None \<and>
   trace (snd (processBackup (demo NoFault) ''heptio-ark/finished'' s0)) =
     [Log Debug ''Running processBackup'', Log Debug ''Getting backup''] \<and>
   ticks (snd (processBackup (demo NoFault) ''heptio-ark/finished'' s0)) = 0"
proof -
  have 1: "SplitMetaNamespaceKey (demo NoFault) ''heptio-ark/finished'' = Inr (''heptio-ark'', ''finished'')"
    by (simp add: demo_def)
  have 2: "lister_Get (demo NoFault) ''heptio-ark'' ''finished'' = Inr demoFinished"
    by (simp add: demo_def)
  have 3: "Status_Phase demoFinished \<noteq> []" "Status_Phase demoFinished \<noteq> BackupPhaseNew"
    by (simp_all add: demoFinished_def demoBackup_def BackupPhaseNew_def)
  show ?thesis
    using processBackup_gate_no_effects [OF 1 2 3, of s0] by (simp add: s0_def)
qed

text \<open>Claim C2, as the code has it. \<open>runBackup\<close> always returns to \<open>processBackup\<close>, which
  goes on to the terminal patch. Once both temporary files, the item actions and the
  store are obtained, it runs every step once and in order, whatever each returns:
  Backupper, encoding, stat, log close, upload, size and duration metrics, and the
  deferred second close of the log. It returns the aggregate of the collected errors,
  \<open>nil\<close> when there is none, and the phase handed to the terminal patch is Completed
  then and Failed otherwise. When one of the four cannot be obtained, it returns an error
  without running any step but, at most, the deferred close of the log, and the phase
  handed to the terminal patch is Failed.\<close>

theorem runBackup_runs_every_step:
  "(\<forall>lf bf acts st b1 r m.
      ioutil_TempFile c 0 = Inr lf \<and> ioutil_TempFile c 1 = Inr bf \<and>
      GetBackupItemActions c = Inr acts \<and> newBackupStore c loc = Inr st \<and>
      backupper_Backup c (b\<lparr>Status_StartTimestamp := clock_Now c (ticks s)\<rparr>) bf acts = (b1, r) \<and>
      m = b1\<lparr>Status_Phase := (case r of None \<Rightarrow> BackupPhaseCompleted | Some _ \<Rightarrow> BackupPhaseFailed),
             Status_CompletionTimestamp := clock_Now c (Suc (ticks s))\<rparr> \<longrightarrow>
      steps (trace (snd (snd (runBackup c b loc s)))) =
        steps (trace s) @
          [Archive, Manifest, Size, LogFlush, Upload, SizeMetric, DurationMetric, LogFlush] \<and>
      fst (snd (runBackup c b loc s)) = NewAggregate (stepErrors c r m lf bf st) \<and>
      Status_Phase (fst (processBackup_execute c b loc s)) =
        (if stepErrors c r m lf bf st = [] then BackupPhaseCompleted else BackupPhaseFailed)) \<and>
   (isl (ioutil_TempFile c 0) \<or> isl (ioutil_TempFile c 1) \<or>
    isl (GetBackupItemActions c) \<or> isl (newBackupStore c loc) \<longrightarrow>
      fst (snd (runBackup c b loc s)) \<noteq> None \<and>
      (steps (trace (snd (snd (runBackup c b loc s)))) = steps (trace s) \<or>
       steps (trace (snd (snd (runBackup c b loc s)))) = steps (trace s) @ [LogFlush]) \<and>
      Status_Phase (fst (processBackup_execute c b loc s)) = BackupPhaseFailed)"
proof (intro conjI allI impI)
  fix lf bf acts st b1 r m
  assume H: "ioutil_TempFile c 0 = Inr lf \<and> ioutil_TempFile c 1 = Inr bf \<and>
      GetBackupItemActions c = Inr acts \<and> newBackupStore c loc = Inr st \<and>
      backupper_Backup c (b\<lparr>Status_StartTimestamp := clock_Now c (ticks s)\<rparr>) bf acts = (b1, r) \<and>
      m = b1\<lparr>Status_Phase := (case r of None \<Rightarrow> BackupPhaseCompleted | Some _ \<Rightarrow> BackupPhaseFailed),
             Status_CompletionTimestamp := clock_Now c (Suc (ticks s))\<rparr>"
  then have T0: "ioutil_TempFile c 0 = Inr lf" and T1: "ioutil_TempFile c 1 = Inr bf"
    and A: "GetBackupItemActions c = Inr acts" and S: "newBackupStore c loc = Inr st"
    and B: "backupper_Backup c (b\<lparr>Status_StartTimestamp := clock_Now c (ticks s)\<rparr>) bf acts = (b1, r)"
    and m: "m = b1\<lparr>Status_Phase := (case r of None \<Rightarrow> BackupPhaseCompleted | Some _ \<Rightarrow> BackupPhaseFailed),
                   Status_CompletionTimestamp := clock_Now c (Suc (ticks s))\<rparr>"
    by simp_all
  note ok = runBackup_ok [OF T0 T1 A S B m]
  show "steps (trace (snd (snd (runBackup c b loc s)))) =
           steps (trace s) @
             [Archive, Manifest, Size, LogFlush, Upload, SizeMetric, DurationMetric, LogFlush]"
    using arg_cong [OF ok(3), of steps] by (simp add: steps_pipelineEvents)
  show "fst (snd (runBackup c b loc s)) = NewAggregate (stepErrors c r m lf bf st)"
    by (rule ok(2))
  have "stepErrors c r m lf bf st = [] \<Longrightarrow> Status_Phase m = BackupPhaseCompleted"
    by (simp add: stepErrors_Nil m)
  then show "Status_Phase (fst (processBackup_execute c b loc s)) =
           (if stepErrors c r m lf bf st = [] then BackupPhaseCompleted else BackupPhaseFailed)"
    by (simp add: processBackup_execute_ok(1) [OF T0 T1 A S B m])
next
  assume E: "isl (ioutil_TempFile c 0) \<or> isl (ioutil_TempFile c 1) \<or>
             isl (GetBackupItemActions c) \<or> isl (newBackupStore c loc)"
  from runBackup_early [OF E, of b s]
  show "fst (snd (runBackup c b loc s)) \<noteq> None"
    and "steps (trace (snd (snd (runBackup c b loc s)))) = steps (trace s) \<or>
         steps (trace (snd (snd (runBackup c b loc s)))) = steps (trace s) @ [LogFlush]"
    by simp_all
  let ?s = "emit (RegisterBackupAttempt (getLabel b ''ark-schedule''))
              (emit (Log Debug ''Running backup'') (emit (TrackerAdd (Namespace b) (Name b)) s))"
  from runBackup_early [OF E, of b ?s]
  show "Status_Phase (fst (processBackup_execute c b loc s)) = BackupPhaseFailed"
    by (auto simp add: processBackup_execute_unfold split: option.splits)
qed

text \<open>Two runs of the concrete controller: one in which nothing fails, and one in which
  the item actions cannot be loaded.\<close>

theorem runBackup_runs_every_step_witness:
  "steps (trace (snd (snd (runBackup (demo NoFault) demoInProgress (Some demoLocation) s0)))) =
     [Archive, Manifest, Size, LogFlush, Upload, SizeMetric, DurationMetric, LogFlush] \<and>
   fst (snd (runBackup (demo NoFault) demoInProgress (Some demoLocation) s0)) = None \<and>
   Status_Phase (fst (processBackup_execute (demo NoFault) demoInProgress (Some demoLocation) s0)) =
     ''Completed'' \<and>
   fst (snd (runBackup (demo PluginFault) demoInProgress (Some demoLocation) s0)) \<noteq> None \<and>
   (steps (trace (snd (snd (runBackup (demo PluginFault) demoInProgress (Some demoLocation) s0)))) = [] \<or>
    steps (trace (snd (snd (runBackup (demo PluginFault) demoInProgress (Some demoLocation) s0)))) =
      [LogFlush]) \<and>
   Status_Phase (fst (processBackup_execute (demo PluginFault) demoInProgress (Some demoLocation) s0)) =
     ''Failed''"
proof -
  let ?c = "demo NoFault"
  let ?b = "demoInProgress\<lparr>Status_StartTimestamp := clock_Now ?c (ticks s0)\<rparr>"
  let ?m = "?b\<lparr>Status_Phase := (case None :: error option of None \<Rightarrow> BackupPhaseCompleted
                                  | Some _ \<Rightarrow> BackupPhaseFailed),
               Status_CompletionTimestamp := clock_Now ?c (Suc (ticks s0))\<rparr>"
  have A: "GetBackupItemActions ?c = Inr [''pod-action'']"
    by (simp add: demo_resources)
  have B: "backupper_Backup ?c ?b ''/tmp/backup'' [''pod-action''] = (?b, None)"
    by (simp add: demo_def)
  have E: "stepErrors ?c None x ''/tmp/log'' ''/tmp/backup'' ''default'' = []" for x
    by (simp add: stepErrors_def demo_def)
  have F: "isl (GetBackupItemActions (demo PluginFault))"
    by (simp add: demo_def)
  have 1: "steps (trace (snd (snd (runBackup ?c demoInProgress (Some demoLocation) s0)))) =
        steps (trace s0) @
          [Archive, Manifest, Size, LogFlush, Upload, SizeMetric, DurationMetric, LogFlush] \<and>
      fst (snd (runBackup ?c demoInProgress (Some demoLocation) s0)) =
        NewAggregate (stepErrors ?c None ?m ''/tmp/log'' ''/tmp/backup'' ''default'') \<and>
      Status_Phase (fst (processBackup_execute ?c demoInProgress (Some demoLocation) s0)) =
        (if stepErrors ?c None ?m ''/tmp/log'' ''/tmp/backup'' ''default'' = []
         then BackupPhaseCompleted else BackupPhaseFailed)"
    using runBackup_runs_every_step
        [where c = ?c and loc = "Some demoLocation" and b = demoInProgress and s = s0]
      demo_resources(1) [of NoFault] demo_resources(2) [of NoFault] A demo_resources(3) [of NoFault] B
    by blast
  have 2: "fst (snd (runBackup (demo PluginFault) demoInProgress (Some demoLocation) s0)) \<noteq> None \<and>
      (steps (trace (snd (snd (runBackup (demo PluginFault) demoInProgress (Some demoLocation) s0)))) =
         steps (trace s0) \<or>
       steps (trace (snd (snd (runBackup (demo PluginFault) demoInProgress (Some demoLocation) s0)))) =
         steps (trace s0) @ [LogFlush]) \<and>
      Status_Phase (fst (processBackup_execute (demo PluginFault) demoInProgress (Some demoLocation) s0)) =
        BackupPhaseFailed"
    using runBackup_runs_every_step
        [where c = "demo PluginFault" and loc = "Some demoLocation" and b = demoInProgress and s = s0] F
    by blast
  from 1 2 show ?thesis
    by (simp add: E s0_def BackupPhaseCompleted_def BackupPhaseFailed_def)
qed

text \<open>Claim C2 as stated fails when the item actions cannot be loaded: \<open>runBackup\<close>
  returns the error before the Backupper, and of the steps only the deferred close of the
  log runs.\<close>

theorem runBackup_early_return_counterexample:
  "steps (trace (snd (snd (runBackup (demo PluginFault) demoInProgress (Some demoLocation) s0)))) =
     [LogFlush] \<and>
   fst (snd (runBackup (demo PluginFault) demoInProgress (Some demoLocation) s0)) =
     Some (Error ''plugin not found'')"
  by (simp add: demo_eval)

text \<open>Claim C3, as the code has it. For a request with TTL above zero the expiration is
  written once, before validation and the first patch, as the clock reading taken there
  plus the TTL. No later step writes it: the object handed to the terminal patch carries
  the expiration that the first patch returned (the Backupper leaving both timestamps
  alone). The start timestamp is the next clock reading, taken when the pipeline begins,
  so expiration and start timestamp plus TTL agree only when the two readings do.\<close>

theorem expiration_from_first_clock_reading:
  assumes K: "SplitMetaNamespaceKey c key = Inr (ns, name)" and G: "lister_Get c ns name = Inr b"
    and new: "Status_Phase b = [] \<or> Status_Phase b = BackupPhaseNew"
    and TTL: "Spec_TTL b > 0"
    and P: "processBackup_prepare c b (fetched s) = (loc, u, s1)"
    and F: "patchBackup c b u s1 = (Inr r, s2)"
    and nv: "Status_Phase r \<noteq> BackupPhaseFailedValidation"
    and X: "processBackup_execute c r loc s2 = (final, s3)"
    and BP: "\<And>x f a. Status_Expiration (fst (backupper_Backup c x f a)) = Status_Expiration x \<and>
                 Status_StartTimestamp (fst (backupper_Backup c x f a)) = Status_StartTimestamp x"
  shows "Status_Expiration u = clock_Now c (ticks s) + Spec_TTL b \<and>
         Status_Expiration final = Status_Expiration r \<and>
         Status_StartTimestamp final = clock_Now c (Suc (ticks s)) \<and>
         (Status_Expiration r = Status_Expiration u \<longrightarrow>
            (Status_Expiration final = Status_StartTimestamp final + Spec_TTL b \<longleftrightarrow>
             clock_Now c (ticks s) = clock_Now c (Suc (ticks s)))) \<and>
         (submitted (trace (snd (processBackup c key s))) = submitted (trace s) @ [u] \<or>
          submitted (trace (snd (processBackup c key s))) = submitted (trace s) @ [u, final])"
proof -
  have U: "u = fst (snd (processBackup_prepare c b (fetched s)))" by (simp add: P)
  have 1: "Status_Expiration u = clock_Now c (ticks s) + Spec_TTL b"
    unfolding U using TTL
    by (simp add: processBackup_prepare_object getLocationAndValidate_object Let_def)
  have s1: "ticks s1 = Suc (ticks s)" "submitted (trace s1) = submitted (trace s)"
    using processBackup_prepare_state [of c b "fetched s"] P TTL by simp_all
  have s2: "s2 = emit (ClientPatch b u) s1"
    by (rule patchBackup_Inr_trace [OF F])
  have t2: "ticks s2 = Suc (ticks s)" by (simp add: s2 s1)
  from processBackup_execute_timestamps [OF BP, of r loc s2] X t2
  have 2: "Status_Expiration final = Status_Expiration r"
    and 3: "Status_StartTimestamp final = clock_Now c (Suc (ticks s))"
    by simp_all
  have s3: "submitted (trace s3) = submitted (trace s) @ [u]"
    using processBackup_execute_submitted [of c r loc s2] X by (simp add: s2 s1)
  let ?s4 = "emit (Log Debug ''Updating backup's final status'') s3"
  obtain res' s5 where T2: "patchBackup c r final ?s4 = (res', s5)"
    by (cases "patchBackup c r final ?s4")
  have s5: "submitted (trace s5) = submitted (trace s) @ [u] \<or>
            submitted (trace s5) = submitted (trace s) @ [u, final]"
    using patchBackup_submitted [of c r final ?s4] T2 s3 by simp
  have E: "submitted (trace (snd (processBackup c key s))) = submitted (trace s5)"
    by (cases res') (simp_all add: processBackup_new [OF K G new P] F nv X T2)
  from 1 2 3 s5 E show ?thesis by auto
qed

text \<open>The successful run of the concrete controller, whose clock advances between the
  readings.\<close>

theorem expiration_from_first_clock_reading_witness:
  "Status_Expiration (fst (snd (processBackup_prepare (demo NoFault) demoBackup (fetched s0)))) =
     clock_Now (demo NoFault) (ticks s0) + Spec_TTL demoBackup \<and>
   Status_Expiration (fst (processBackup_execute (demo NoFault) demoInProgress (Some demoLocation)
       (emit (ClientPatch demoBackup (fst (snd (processBackup_prepare (demo NoFault) demoBackup (fetched s0)))))
          (snd (snd (processBackup_prepare (demo NoFault) demoBackup (fetched s0))))))) =
     Status_Expiration demoInProgress \<and>
   Status_StartTimestamp (fst (processBackup_execute (demo NoFault) demoInProgress (Some demoLocation)
       (emit (ClientPatch demoBackup (fst (snd (processBackup_prepare (demo NoFault) demoBackup (fetched s0)))))
          (snd (snd (processBackup_prepare (demo NoFault) demoBackup (fetched s0))))))) =
     clock_Now (demo NoFault) (Suc (ticks s0))"
proof -
  let ?c = "demo NoFault"
  let ?P = "processBackup_prepare ?c demoBackup (fetched s0)"
  let ?s2 = "emit (ClientPatch demoBackup (fst (snd ?P))) (snd (snd ?P))"
  let ?X = "processBackup_execute ?c demoInProgress (Some demoLocation) ?s2"
  have TTL: "Spec_TTL demoBackup > 0" by (simp add: demoBackup_def)
  have P: "?P = (Some demoLocation, fst (snd ?P), snd (snd ?P))"
    using demo_prepare(1) [of NoFault "fetched s0"] by (cases ?P) simp
  have F: "patchBackup ?c demoBackup (fst (snd ?P)) (snd (snd ?P)) = (Inr demoInProgress, ?s2)"
    using demo_patch_first [of "fst (snd ?P)" NoFault demoBackup "snd (snd ?P)"]
    by (simp add: demo_prepare demo_name demoInProgress_def)
  have nv: "Status_Phase demoInProgress \<noteq> BackupPhaseFailedValidation"
    by (simp add: demoInProgress_def BackupPhaseFailedValidation_def)
  have X: "?X = (fst ?X, snd ?X)" by simp
  have BP: "Status_Expiration (fst (backupper_Backup ?c x f a)) = Status_Expiration x \<and>
            Status_StartTimestamp (fst (backupper_Backup ?c x f a)) = Status_StartTimestamp x" for x f a
    by (simp add: demo_def)
  from expiration_from_first_clock_reading [OF demo_split demo_get demo_new TTL P F nv X BP]
  show ?thesis by simp
qed

text \<open>Claim C3 as stated fails on the successful run of the concrete controller: both
  patches carry the expiration computed from the first reading, and the start timestamp
  is five seconds later.\<close>

theorem expiration_start_counterexample:
  "map Status_Expiration (submitted (trace (snd (processBackup (demo NoFault) ''heptio-ark/nightly'' s0)))) =
     [3605000000000, 3605000000000] \<and>
   Status_Phase (finalStatus (snd (processBackup (demo NoFault) ''heptio-ark/nightly'' s0))) = ''Completed'' \<and>
   Spec_TTL (finalStatus (snd (processBackup (demo NoFault) ''heptio-ark/nightly'' s0))) = 3600000000000 \<and>
   Status_StartTimestamp (finalStatus (snd (processBackup (demo NoFault) ''heptio-ark/nightly'' s0))) =
     10000000000 \<and>
   Status_Expiration (finalStatus (snd (processBackup (demo NoFault) ''heptio-ark/nightly'' s0))) =
     3605000000000 \<and>
   Status_Expiration (finalStatus (snd (processBackup (demo NoFault) ''heptio-ark/nightly'' s0))) \<noteq>
     Status_StartTimestamp (finalStatus (snd (processBackup (demo NoFault) ''heptio-ark/nightly'' s0))) +
     Spec_TTL (finalStatus (snd (processBackup (demo NoFault) ''heptio-ark/nightly'' s0)))"
  by (simp add: demo_eval finalStatus_def)

text \<open>Claim C4. When the resource lists or the namespace lists of a request are
  contradictory (a name in both lists, or "*" beside an explicit name in one list),
  validation returns at least one error, the object prepared for the first patch has phase
  FailedValidation and carries the errors, and no object this reconcile submits to the
  store has phase InProgress.\<close>

theorem contradictory_lists_fail_validation:
  assumes K: "SplitMetaNamespaceKey c key = Inr (ns, name)" and G: "lister_Get c ns name = Inr b"
    and C: "contradictory (Spec_IncludedResources b) (Spec_ExcludedResources b) \<or>
            contradictory (Spec_IncludedNamespaces b) (Spec_ExcludedNamespaces b)"
  shows "fst (snd (getLocationAndValidate c b d)) \<noteq> [] \<and>
         Status_Phase (fst (snd (processBackup_prepare c b (fetched s)))) = BackupPhaseFailedValidation \<and>
         Status_ValidationErrors (fst (snd (processBackup_prepare c b (fetched s)))) \<noteq> [] \<and>
         (\<exists>rest. submitted (trace (snd (processBackup c key s))) = submitted (trace s) @ rest \<and>
                 (\<forall>x\<in>set rest. Status_Phase x \<noteq> BackupPhaseInProgress))"
proof -
  from C have V: "ValidateIncludesExcludes (Spec_IncludedResources b) (Spec_ExcludedResources b) \<noteq> [] \<or>
     ValidateIncludesExcludes (Spec_IncludedNamespaces b) (Spec_ExcludedNamespaces b) \<noteq> []"
    using ValidateIncludesExcludes_contradictory by blast
  then have 1: "fst (snd (getLocationAndValidate c b d)) \<noteq> []"
    by (auto simp add: getLocationAndValidate_errors)
  obtain loc u s1 where P: "processBackup_prepare c b (fetched s) = (loc, u, s1)"
    by (cases "processBackup_prepare c b (fetched s)")
  have U: "u = fst (snd (processBackup_prepare c b (fetched s)))" by (simp add: P)
  from V have 2: "Status_Phase u = BackupPhaseFailedValidation" and 3: "Status_ValidationErrors u \<noteq> []"
    unfolding U by (auto simp add: processBackup_prepare_object getLocationAndValidate_errors
        getLocationAndValidate_object Let_def)
  have s1: "submitted (trace s1) = submitted (trace s)"
    using processBackup_prepare_state [of c b "fetched s"] P by simp
  have 4: "\<exists>rest. submitted (trace (snd (processBackup c key s))) = submitted (trace s) @ rest \<and>
                 (\<forall>x\<in>set rest. Status_Phase x \<noteq> BackupPhaseInProgress)"
  proof (cases "Status_Phase b = [] \<or> Status_Phase b = BackupPhaseNew")
    case False
    with processBackup_gate [OF K G, of s] show ?thesis by simp
  next
    case new: True
    note run = processBackup_new [OF K G new P]
    obtain res s2 where F: "patchBackup c b u s1 = (res, s2)"
      by (cases "patchBackup c b u s1")
    have s2: "submitted (trace s2) = submitted (trace s) \<or>
              submitted (trace s2) = submitted (trace s) @ [u]"
      using patchBackup_submitted [of c b u s1] F s1 by simp
    show ?thesis
    proof (cases res)
      case (Inl e)
      with run F s2 2 phases_distinct show ?thesis by auto
    next
      case R: (Inr r)
      show ?thesis
      proof (cases "Status_Phase r = BackupPhaseFailedValidation")
        case True
        with run F R s2 2 phases_distinct show ?thesis by auto
      next
        case nv: False
        obtain final s3 where X: "processBackup_execute c r loc s2 = (final, s3)"
          by (cases "processBackup_execute c r loc s2")
        have fin: "Status_Phase final \<noteq> BackupPhaseInProgress"
          using processBackup_execute_phase [of c r loc s2] X phases_distinct by auto
        have s3: "submitted (trace s3) = submitted (trace s2)"
          using processBackup_execute_submitted [of c r loc s2] X by simp
        let ?s4 = "emit (Log Debug ''Updating backup's final status'') s3"
        obtain res' s5 where T2: "patchBackup c r final ?s4 = (res', s5)"
          by (cases "patchBackup c r final ?s4")
        have s5: "submitted (trace s5) = submitted (trace s2) \<or>
                  submitted (trace s5) = submitted (trace s2) @ [final]"
          using patchBackup_submitted [of c r final ?s4] T2 s3 by simp
        have E: "submitted (trace (snd (processBackup c key s))) = submitted (trace s5)"
          by (cases res') (simp_all add: run F R nv X T2)
        from s2 s5 E 2 fin phases_distinct show ?thesis by auto
      qed
    qed
  qed
  from 1 2 3 4 show ?thesis by (simp add: U)
qed

theorem contradictory_lists_fail_validation_witness:
  "fst (snd (getLocationAndValidate (demo NoFault) demoContradictory ''default'')) \<noteq> [] \<and>
   Status_Phase (fst (snd (processBackup_prepare (demo NoFault) demoContradictory (fetched s0)))) =
     BackupPhaseFailedValidation \<and>
   Status_ValidationErrors (fst (snd (processBackup_prepare (demo NoFault) demoContradictory (fetched s0)))) \<noteq> [] \<and>
   (\<exists>rest. submitted (trace (snd (processBackup (demo NoFault) ''heptio-ark/bad'' s0))) =
             submitted (trace s0) @ rest \<and>
           (\<forall>x\<in>set rest. Status_Phase x \<noteq> BackupPhaseInProgress)) \<and>
   map Status_Phase (submitted (trace (snd (processBackup (demo NoFault) ''heptio-ark/bad'' s0)))) =
     [''FailedValidation'']"
proof -
  have K: "SplitMetaNamespaceKey (demo NoFault) ''heptio-ark/bad'' = Inr (''heptio-ark'', ''bad'')"
    by (simp add: demo_def)
  have G: "lister_Get (demo NoFault) ''heptio-ark'' ''bad'' = Inr demoContradictory"
    by (simp add: demo_def)
  have "contradictory (Spec_IncludedResources demoContradictory) (Spec_ExcludedResources demoContradictory)"
    by (simp add: contradictory_def demoContradictory_def demoBackup_def)
  then have C: "contradictory (Spec_IncludedResources demoContradictory) (Spec_ExcludedResources demoContradictory) \<or>
     contradictory (Spec_IncludedNamespaces demoContradictory) (Spec_ExcludedNamespaces demoContradictory)"
    by simp
  have S: "map Status_Phase (submitted (trace (snd (processBackup (demo NoFault) ''heptio-ark/bad'' s0)))) =
     [''FailedValidation'']"
    by (simp add: demo_eval)
  from contradictory_lists_fail_validation [OF K G C, of "''default''" s0] S show ?thesis
    by blast
qed

text \<open>Claim C5. In a run that has reached the Backupper (both temporary files, the item
  actions and the store were obtained) and in which the Backupper returns an error, every
  later step is still run, once and in order: the completion time is stamped, the object
  is encoded with phase Failed, the archive is measured, the log is closed, \<open>PutBackup\<close> is
  called with the log and, when the encoding succeeded, with manifest and archive, and both
  metrics are recorded. The object handed to the terminal patch has phase Failed, and the
  failure counter is the last thing recorded.\<close>

theorem backupper_failure_does_not_short_circuit:
  assumes T0: "ioutil_TempFile c 0 = Inr lf" and T1: "ioutil_TempFile c 1 = Inr bf"
    and A: "GetBackupItemActions c = Inr acts" and S: "newBackupStore c loc = Inr st"
    and B: "backupper_Backup c (b\<lparr>Status_StartTimestamp := clock_Now c (ticks s)\<rparr>) bf acts =
              (b1, Some err)"
    and m: "m = b1\<lparr>Status_Phase := BackupPhaseFailed,
                   Status_CompletionTimestamp := clock_Now c (Suc (ticks s))\<rparr>"
  shows "steps (trace (snd (processBackup_execute c b loc s))) =
           steps (trace s) @
             [Archive, Manifest, Size, LogFlush, Upload, SizeMetric, DurationMetric, LogFlush] \<and>
         EncodeTo m \<in> set (trace (snd (processBackup_execute c b loc s))) \<and>
         PutBackup st (Name m)
             (case encode_EncodeTo c m of Inl _ \<Rightarrow> None | Inr j \<Rightarrow> Some j)
             (case encode_EncodeTo c m of Inl _ \<Rightarrow> None | Inr _ \<Rightarrow> Some bf) lf
           \<in> set (trace (snd (processBackup_execute c b loc s))) \<and>
         fst (processBackup_execute c b loc s) = m \<and>
         Status_Phase (fst (processBackup_execute c b loc s)) = BackupPhaseFailed \<and>
         last (trace (snd (processBackup_execute c b loc s))) =
           RegisterBackupFailed (getLabel b ''ark-schedule'')"
proof -
  have m': "m = b1\<lparr>Status_Phase := (case Some err of None \<Rightarrow> BackupPhaseCompleted | Some _ \<Rightarrow> BackupPhaseFailed),
                   Status_CompletionTimestamp := clock_Now c (Suc (ticks s))\<rparr>"
    using m by simp
  note ok = processBackup_execute_ok [OF T0 T1 A S B m']
  have ne: "stepErrors c (Some err) m lf bf st \<noteq> []"
    by (simp add: stepErrors_def)
  have P: "pipelineEvents (trace (snd (processBackup_execute c b loc s))) =
           pipelineEvents (trace s) @
             [BackupperBackup (b\<lparr>Status_StartTimestamp := clock_Now c (ticks s)\<rparr>) bf acts,
              EncodeTo m, FileStat bf, GzipClose lf, uploadOf c m lf bf st,
              SetBackupTarballSizeBytesGauge (getLabel m ''ark-schedule'')
                (case file_Stat c bf of Inl _ \<Rightarrow> 0 | Inr sz \<Rightarrow> sz),
              RegisterBackupDuration (getLabel m ''ark-schedule'')
                ((Status_CompletionTimestamp m - Status_StartTimestamp m) sdiv 1000000000),
              GzipClose lf]"
    by (rule ok(2))
  have 1: "steps (trace (snd (processBackup_execute c b loc s))) =
           steps (trace s) @
             [Archive, Manifest, Size, LogFlush, Upload, SizeMetric, DurationMetric, LogFlush]"
    using arg_cong [OF P, of steps] by (simp add: steps_pipelineEvents)
  have 2: "EncodeTo m \<in> set (trace (snd (processBackup_execute c b loc s)))"
    by (rule set_pipelineEvents) (simp add: P)
  have 3: "uploadOf c m lf bf st \<in> set (trace (snd (processBackup_execute c b loc s)))"
    by (rule set_pipelineEvents) (simp add: P)
  have 4: "fst (processBackup_execute c b loc s) = m"
    using ok(1) ne by (simp add: m)
  have 5: "last (trace (snd (processBackup_execute c b loc s))) =
           RegisterBackupFailed (getLabel b ''ark-schedule'')"
    using ok(3) ne by simp
  from 1 2 3 4 5 show ?thesis
    by (simp add: uploadOf_def m)
qed

text \<open>The pipeline of the concrete controller with a failing Backupper.\<close>

theorem backupper_failure_does_not_short_circuit_witness:
  "steps (trace (snd (processBackup_execute (demo BackupperFault) demoInProgress (Some demoLocation) s0))) =
     [Archive, Manifest, Size, LogFlush, Upload, SizeMetric, DurationMetric, LogFlush] \<and>
   PutBackup ''default'' ''nightly'' (Some ''Failed'') (Some ''/tmp/backup'') ''/tmp/log''
     \<in> set (trace (snd (processBackup_execute (demo BackupperFault) demoInProgress (Some demoLocation) s0))) \<and>
   Status_Phase (fst (processBackup_execute (demo BackupperFault) demoInProgress (Some demoLocation) s0)) =
     ''Failed'' \<and>
   last (trace (snd (processBackup_execute (demo BackupperFault) demoInProgress (Some demoLocation) s0))) =
     RegisterBackupFailed ''daily''"
proof -
  let ?c = "demo BackupperFault"
  let ?b = "demoInProgress\<lparr>Status_StartTimestamp := clock_Now ?c (ticks s0)\<rparr>"
  have A: "GetBackupItemActions ?c = Inr [''pod-action'']"
    by (simp add: demo_resources)
  have B: "backupper_Backup ?c ?b ''/tmp/backup'' [''pod-action''] =
             (?b, Some (Error ''api server unreachable''))"
    by (simp add: demo_def)
  have E: "encode_EncodeTo ?c x = Inr (Status_Phase x)" for x
    by (simp add: demo_def)
  have N: "Name demoInProgress = ''nightly''" "getLabel demoInProgress ''ark-schedule'' = ''daily''"
    by (simp_all add: demoInProgress_def demoStored_def getLabel_def)
  from backupper_failure_does_not_short_circuit
         [OF demo_resources(1) demo_resources(2) A demo_resources(3) B refl]
  show ?thesis
    by (simp add: E N s0_def BackupPhaseFailed_def)
qed

text \<open>Claim C6, as the code has it. When the key cannot be split, or the lister cannot
  return the object, \<open>processBackup\<close> returns the error, wrapped, to its caller; it has
  written debug lines only and has had no other effect. It does not return \<open>nil\<close>: what
  becomes of the key is left to the caller that receives the error.\<close>

theorem processBackup_fetch_error_returned:
  assumes "SplitMetaNamespaceKey c key = Inl e \<or>
           (SplitMetaNamespaceKey c key = Inr (ns, name) \<and> lister_Get c ns name = Inl e)"
  shows "fst (processBackup c key s) =
           Some (Wrap e (if isl (SplitMetaNamespaceKey c key) then ''error splitting queue key''
                         else ''error getting backup'')) \<and>
         filter (\<lambda>ev. \<not> isLog ev) (trace (snd (processBackup c key s))) =
           filter (\<lambda>ev. \<not> isLog ev) (trace s) \<and>
         ticks (snd (processBackup c key s)) = ticks s"
  using assms by (auto simp add: processBackup_def)

theorem processBackup_fetch_error_returned_witness:
  "fst (processBackup (demo NoFault) ''heptio-ark/gone'' s0) =
     Some (Wrap (Error ''backup not found'') ''error getting backup'') \<and>
   filter (\<lambda>ev. \<not> isLog ev) (trace (snd (processBackup (demo NoFault) ''heptio-ark/gone'' s0))) = [] \<and>
   ticks (snd (processBackup (demo NoFault) ''heptio-ark/gone'' s0)) = 0"
proof -
  have 1: "SplitMetaNamespaceKey (demo NoFault) ''heptio-ark/gone'' = Inr (''heptio-ark'', ''gone'')"
    by (simp add: demo_def)
  have 2: "lister_Get (demo NoFault) ''heptio-ark'' ''gone'' = Inl (Error ''backup not found'')"
    by (simp add: demo_def)
  have "SplitMetaNamespaceKey (demo NoFault) ''heptio-ark/gone'' = Inl (Error ''backup not found'') \<or>
        (SplitMetaNamespaceKey (demo NoFault) ''heptio-ark/gone'' = Inr (''heptio-ark'', ''gone'') \<and>
         lister_Get (demo NoFault) ''heptio-ark'' ''gone'' = Inl (Error ''backup not found''))"
    using 1 2 by simp
  from processBackup_fetch_error_returned [OF this, of s0] show ?thesis
    by (simp add: 1 s0_def)
qed

text \<open>Claim C6 as stated fails for a key that cannot be split and for a key whose object
  is missing: \<open>processBackup\<close> returns an error, not \<open>nil\<close>.\<close>

theorem processBackup_undecodable_key_counterexample:
  "fst (processBackup (demo NoFault) ''heptio-ark/nightly/extra'' s0) =
     Some (Wrap (Error ''unexpected key format'') ''error splitting queue key'') \<and>
   fst (processBackup (demo NoFault) ''heptio-ark/gone'' s0) =
     Some (Wrap (Error ''backup not found'') ''error getting backup'')"
  by (simp add: processBackup_def demo_def)

text \<open>Claim C7. When the terminal patch fails, \<open>processBackup\<close> still returns \<open>nil\<close>: the
  failure is written to the log, the tracker entry is removed, and nothing else
  follows.\<close>

theorem processBackup_terminal_patch_failure_logged:
  assumes "SplitMetaNamespaceKey c key = Inr (ns, name)" and "lister_Get c ns name = Inr b"
    and "Status_Phase b = [] \<or> Status_Phase b = BackupPhaseNew"
    and "processBackup_prepare c b (fetched s) = (loc, u, s1)"
    and "patchBackup c b u s1 = (Inr r, s2)"
    and "Status_Phase r \<noteq> BackupPhaseFailedValidation"
    and "processBackup_execute c r loc s2 = (final, s3)"
    and "patchBackup c r final (emit (Log Debug ''Updating backup's final status'') s3) = (Inl err, s4)"
  shows "processBackup c key s =
     (None,
      emit (TrackerDelete (Namespace r) (Name r))
        (emit (LogError ''error updating backup's final status'' err) s4))"
  using assms(5-8) by (simp add: processBackup_new [OF assms(1-4)])

text \<open>The run of the concrete controller in which the store rejects the terminal
  patch.\<close>

theorem processBackup_terminal_patch_failure_logged_witness:
  "fst (processBackup (demo TerminalPatchFault) ''heptio-ark/nightly'' s0) = None \<and>
   LogError ''error updating backup's final status''
       (Wrap (Error ''the server rejected the request'') ''error patching backup'')
     \<in> set (trace (snd (processBackup (demo TerminalPatchFault) ''heptio-ark/nightly'' s0))) \<and>
   last (trace (snd (processBackup (demo TerminalPatchFault) ''heptio-ark/nightly'' s0))) =
     TrackerDelete ''heptio-ark'' ''nightly''"
proof -
  let ?c = "demo TerminalPatchFault"
  let ?P = "processBackup_prepare ?c demoBackup (fetched s0)"
  let ?r = "(demoStored ''nightly'')\<lparr>Status_Phase := ''InProgress''\<rparr>"
  let ?s2 = "emit (ClientPatch demoBackup (fst (snd ?P))) (snd (snd ?P))"
  let ?X = "processBackup_execute ?c ?r (fst ?P) ?s2"
  let ?s4 = "emit (ClientPatch ?r (fst ?X)) (emit (Log Debug ''Updating backup's final status'') (snd ?X))"
  have P: "?P = (fst ?P, fst (snd ?P), snd (snd ?P))" by simp
  have F: "patchBackup ?c demoBackup (fst (snd ?P)) (snd (snd ?P)) = (Inr ?r, ?s2)"
    using demo_patch_first [of "fst (snd ?P)" TerminalPatchFault demoBackup "snd (snd ?P)"]
    by (simp add: demo_prepare demo_name)
  have NV: "Status_Phase ?r \<noteq> BackupPhaseFailedValidation"
    by (simp add: BackupPhaseFailedValidation_def)
  have X: "?X = (fst ?X, snd ?X)" by simp
  have T: "patchBackup ?c ?r (fst ?X) (emit (Log Debug ''Updating backup's final status'') (snd ?X)) =
      (Inl (Wrap (Error ''the server rejected the request'') ''error patching backup''), ?s4)"
    by (rule demo_patch_rejected) (rule processBackup_execute_phase)
  have N: "Namespace ?r = ''heptio-ark''" "Name ?r = ''nightly''"
    by (simp_all add: demoStored_def demoBackup_def)
  from processBackup_terminal_patch_failure_logged [OF demo_split demo_get demo_new P F NV X T]
  show ?thesis by (simp add: N)
qed

text \<open>Claim C8. Validation replaces an empty storage location by the default and writes
  the effective location into the labels of the object it was given, under the
  storage-location key and leaving the other labels alone, whatever errors it finds and
  whether or not the lookup of the location succeeds.\<close>

theorem getLocationAndValidate_location_label:
  "Spec_StorageLocation (snd (snd (getLocationAndValidate c itm d))) =
     (if Spec_StorageLocation itm = [] then d else Spec_StorageLocation itm) \<and>
   Labels (snd (snd (getLocationAndValidate c itm d))) (StorageLocationLabel c) =
     Some (Spec_StorageLocation (snd (snd (getLocationAndValidate c itm d)))) \<and>
   (\<forall>k. k \<noteq> StorageLocationLabel c \<longrightarrow>
      Labels (snd (snd (getLocationAndValidate c itm d))) k = Labels itm k)"
  by (simp add: getLocationAndValidate_object)

theorem getLocationAndValidate_location_label_witness:
  "Spec_StorageLocation (snd (snd (getLocationAndValidate (demo NoFault) demoContradictory ''missing''))) =
     ''missing'' \<and>
   Labels (snd (snd (getLocationAndValidate (demo NoFault) demoContradictory ''missing'')))
     ''ark.heptio.com/storage-location'' = Some ''missing'' \<and>
   Labels (snd (snd (getLocationAndValidate (demo NoFault) demoContradictory ''missing'')))
     ''ark-schedule'' = Some ''daily'' \<and>
   fst (getLocationAndValidate (demo NoFault) demoContradictory ''missing'') = None \<and>
   length (fst (snd (getLocationAndValidate (demo NoFault) demoContradictory ''missing''))) = 3"
proof -
  have L: "StorageLocationLabel (demo NoFault) = ''ark.heptio.com/storage-location''"
    by (simp add: demo_def)
  have E: "Spec_StorageLocation demoContradictory = []"
    by (simp add: demoContradictory_def demoBackup_def)
  have K: "Labels demoContradictory ''ark-schedule'' = Some ''daily''"
    by (simp add: demoContradictory_def demoBackup_def)
  have N: "fst (getLocationAndValidate (demo NoFault) demoContradictory ''missing'') = None"
    by (simp add: getLocationAndValidate_def demo_def demoContradictory_def demoBackup_def)
  have V: "length (fst (snd (getLocationAndValidate (demo NoFault) demoContradictory ''missing''))) = 3"
    by (simp add: getLocationAndValidate_errors ValidateIncludesExcludes_def wildcardWithExplicit_def
          demo_def demoContradictory_def demoBackup_def)
  from getLocationAndValidate_location_label [of "demo NoFault" demoContradictory "''missing''"]
  show ?thesis
    by (simp add: L E K N V)
qed



text \<open>Claim C10, as the code has it. In a run that has reached the Backupper, one object
  is encoded and uploaded as manifest, and its phase follows from the Backupper alone:
  Completed when the Backupper returned no error, Failed otherwise. The phase handed to the
  terminal patch is Failed as soon as the Backupper, the encoding, the stat or the upload
  failed, and Completed otherwise. The error of closing the log stream is not among
  them: it is logged, and changes neither phase.\<close>

theorem manifest_phase_from_backupper:
  assumes T0: "ioutil_TempFile c 0 = Inr lf" and T1: "ioutil_TempFile c 1 = Inr bf"
    and A: "GetBackupItemActions c = Inr acts" and S: "newBackupStore c loc = Inr st"
    and B: "backupper_Backup c (b\<lparr>Status_StartTimestamp := clock_Now c (ticks s)\<rparr>) bf acts = (b1, r)"
    and m: "m = b1\<lparr>Status_Phase := (case r of None \<Rightarrow> BackupPhaseCompleted | Some _ \<Rightarrow> BackupPhaseFailed),
                   Status_CompletionTimestamp := clock_Now c (Suc (ticks s))\<rparr>"
  shows "pipelineEvents (trace (snd (processBackup_execute c b loc s))) =
           pipelineEvents (trace s) @
             [BackupperBackup (b\<lparr>Status_StartTimestamp := clock_Now c (ticks s)\<rparr>) bf acts,
              EncodeTo m, FileStat bf, GzipClose lf,
              PutBackup st (Name m)
                (case encode_EncodeTo c m of Inl _ \<Rightarrow> None | Inr j \<Rightarrow> Some j)
                (case encode_EncodeTo c m of Inl _ \<Rightarrow> None | Inr _ \<Rightarrow> Some bf) lf,
              SetBackupTarballSizeBytesGauge (getLabel m ''ark-schedule'')
                (case file_Stat c bf of Inl _ \<Rightarrow> 0 | Inr sz \<Rightarrow> sz),
              RegisterBackupDuration (getLabel m ''ark-schedule'')
                ((Status_CompletionTimestamp m - Status_StartTimestamp m) sdiv 1000000000),
              GzipClose lf] \<and>
         Status_Phase m = (if r = None then BackupPhaseCompleted else BackupPhaseFailed) \<and>
         Status_Phase (fst (processBackup_execute c b loc s)) =
           (if r = None \<and> \<not> isl (encode_EncodeTo c m) \<and> \<not> isl (file_Stat c bf) \<and>
               PutBackup_result c st (Name m)
                 (case encode_EncodeTo c m of Inl _ \<Rightarrow> None | Inr j \<Rightarrow> Some j)
                 (case encode_EncodeTo c m of Inl _ \<Rightarrow> None | Inr _ \<Rightarrow> Some bf) lf = None
            then BackupPhaseCompleted else BackupPhaseFailed)"
proof -
  note ok = processBackup_execute_ok [OF T0 T1 A S B m]
  have 1: "Status_Phase m = (if r = None then BackupPhaseCompleted else BackupPhaseFailed)"
    by (cases r) (simp_all add: m)
  have 2: "Status_Phase (fst (processBackup_execute c b loc s)) =
           (if stepErrors c r m lf bf st = [] then BackupPhaseCompleted else BackupPhaseFailed)"
    using 1 by (auto simp add: ok(1) stepErrors_Nil)
  from ok(2) 1 2 show ?thesis
    by (simp add: uploadOf_def stepErrors_Nil)
qed

text \<open>The run of the concrete controller in which closing the log stream fails: manifest
  and status are both Completed.\<close>

theorem manifest_phase_from_backupper_witness:
  "pipelineEvents (trace (snd (processBackup_execute (demo LogCloseFault) demoInProgress (Some demoLocation) s0))) =
     [BackupperBackup (demoInProgress\<lparr>Status_StartTimestamp := 5000000000\<rparr>) ''/tmp/backup'' [''pod-action''],
      EncodeTo (demoInProgress\<lparr>Status_StartTimestamp := 5000000000, Status_Phase := ''Completed'',
                  Status_CompletionTimestamp := 10000000000\<rparr>),
      FileStat ''/tmp/backup'', GzipClose ''/tmp/log'',
      PutBackup ''default'' ''nightly'' (Some ''Completed'') (Some ''/tmp/backup'') ''/tmp/log'',
      SetBackupTarballSizeBytesGauge ''daily'' 2048,
      RegisterBackupDuration ''daily'' 5,
      GzipClose ''/tmp/log''] \<and>
   Status_Phase (fst (processBackup_execute (demo LogCloseFault) demoInProgress (Some demoLocation) s0)) =
     ''Completed''"
proof -
  let ?c = "demo LogCloseFault"
  let ?b = "demoInProgress\<lparr>Status_StartTimestamp := clock_Now ?c (ticks s0)\<rparr>"
  have A: "GetBackupItemActions ?c = Inr [''pod-action'']"
    by (simp add: demo_resources)
  have B: "backupper_Backup ?c ?b ''/tmp/backup'' [''pod-action''] = (?b, None)"
    by (simp add: demo_def)
  have E: "encode_EncodeTo ?c x = Inr (Status_Phase x)" "file_Stat ?c y = Inr 2048"
      "PutBackup_result ?c st n j a l = None" "clock_Now ?c k = 5000000000 * (int k + 1)"
    for x y st n j a l k
    by (simp_all add: demo_def)
  have N: "Name demoInProgress = ''nightly''" "Labels demoInProgress ''ark-schedule'' = Some ''daily''"
    by (simp_all add: demoInProgress_def demoStored_def)
  have D: "(5000000000::int) sdiv 1000000000 = 5"
    by (simp add: signed_divide_int_def)
  from manifest_phase_from_backupper [OF demo_resources(1) demo_resources(2) A demo_resources(3) B refl]
  show ?thesis
    by (simp add: E N D s0_def BackupPhaseCompleted_def getLabel_def)
qed

text \<open>Claim C10 as stated fails when only the close of the log stream fails: the error
  is logged, the success counter is incremented and the terminal patch carries
  Completed.\<close>

theorem log_close_failure_counterexample:
  "LogError ''error closing gzippedLogFile'' (Error ''write error'')
     \<in> set (trace (snd (processBackup (demo LogCloseFault) ''heptio-ark/nightly'' s0))) \<and>
   RegisterBackupSuccess ''daily''
     \<in> set (trace (snd (processBackup (demo LogCloseFault) ''heptio-ark/nightly'' s0))) \<and>
   map Status_Phase (submitted (trace (snd (processBackup (demo LogCloseFault) ''heptio-ark/nightly'' s0)))) =
     [''InProgress'', ''Completed''] \<and>
   Status_Phase (finalStatus (snd (processBackup (demo LogCloseFault) ''heptio-ark/nightly'' s0))) \<noteq>
     BackupPhaseFailed"
  by (simp add: demo_eval finalStatus_def)

end
